theory Spec2Isabelle
  imports Main "HOL-Library.Sublist"
begin

section \<open>Python values\<close>

text \<open>
  The JSON-shaped Python values the server handles: \<open>None\<close>, booleans, integers,
  strings, lists and dicts with string keys. A dict is an association list in insertion
  order (the order \<open>json.dumps\<close> writes); its keys are distinct. Floats are left out.
\<close>

datatype json =
    JNull
  | JBool bool
  | JInt int
  | JStr string
  | JArr "json list"
  | JObj "(string \<times> json) list"

text \<open>Python exceptions, each with the text its \<open>str(e)\<close> is built from.\<close>

datatype exn =
    ValueError string
  | KeyError string
  | TypeError string
  | AttributeError string
  | JSONDecodeError string
  | OSError string
  | ClientError string
  | InvalidJWSObject string
  | InvalidJWSSignature string
  | LibraryError string
  | HTTPException nat string

text \<open>Truthiness, as \<open>if x:\<close> and \<open>x or y\<close> test it.\<close>

fun py_truthy :: "json \<Rightarrow> bool" where
  "py_truthy JNull = False"
| "py_truthy (JBool b) = b"
| "py_truthy (JInt i) = (i \<noteq> 0)"
| "py_truthy (JStr s) = (s \<noteq> [])"
| "py_truthy (JArr xs) = (xs \<noteq> [])"
| "py_truthy (JObj kvs) = (kvs \<noteq> [])"

fun py_type_name :: "json \<Rightarrow> string" where
  "py_type_name JNull = ''NoneType''"
| "py_type_name (JBool b) = ''bool''"
| "py_type_name (JInt i) = ''int''"
| "py_type_name (JStr s) = ''str''"
| "py_type_name (JArr xs) = ''list''"
| "py_type_name (JObj kvs) = ''dict''"

section \<open>The json module\<close>

text \<open>
  \<open>json.dumps(obj)\<close> with its default arguments: dict items in insertion order, the
  separators \<open>", "\<close> and \<open>": "\<close>, and \<open>ensure_ascii\<close>, which writes
  every character outside the printable ASCII range as an escape. A \<open>str\<close> is a list of
  code points below 256.
\<close>

definition hex_digit :: "nat \<Rightarrow> char" where
  "hex_digit d = (if d < 10 then char_of (48 + d) else char_of (87 + d))"

definition escape_char :: "char \<Rightarrow> string" where
  "escape_char c =
     (if c = CHR 0x22 then [CHR 0x5C, CHR 0x22]
      else if c = CHR 0x5C then [CHR 0x5C, CHR 0x5C]
      else if c = CHR 0x0A then [CHR 0x5C, CHR ''n'']
      else if c = CHR 0x0D then [CHR 0x5C, CHR ''r'']
      else if c = CHR 0x09 then [CHR 0x5C, CHR ''t'']
      else if c = CHR 0x08 then [CHR 0x5C, CHR ''b'']
      else if c = CHR 0x0C then [CHR 0x5C, CHR ''f'']
      else if (of_char c :: nat) < 32 \<or> 126 < (of_char c :: nat)
        then [CHR 0x5C, CHR ''u'', CHR ''0'', CHR ''0'',
              hex_digit ((of_char c :: nat) div 16), hex_digit ((of_char c :: nat) mod 16)]
      else [c])"

definition dumps_str :: "string \<Rightarrow> string" where
  "dumps_str s = [CHR 0x22] @ concat (map escape_char s) @ [CHR 0x22]"

fun digits :: "nat \<Rightarrow> string" where
  "digits n = (if n < 10 then [hex_digit n] else digits (n div 10) @ [hex_digit (n mod 10)])"

declare digits.simps [simp del]

definition dumps_int :: "int \<Rightarrow> string" where
  "dumps_int i = (if i < 0 then CHR ''-'' # digits (nat (- i)) else digits (nat i))"

fun join_with :: "'a list \<Rightarrow> 'a list list \<Rightarrow> 'a list" where
  "join_with sep [] = []"
| "join_with sep [x] = x"
| "join_with sep (x # y # ys) = x @ sep @ join_with sep (y # ys)"

fun json_dumps :: "json \<Rightarrow> string" where
  "json_dumps JNull = ''null''"
| "json_dumps (JBool b) = (if b then ''true'' else ''false'')"
| "json_dumps (JInt i) = dumps_int i"
| "json_dumps (JStr s) = dumps_str s"
| "json_dumps (JArr xs) = ''['' @ join_with '', '' (map json_dumps xs) @ '']''"
| "json_dumps (JObj kvs) =
     ''{'' @ join_with '', '' (map (\<lambda>(k, v). dumps_str k @ '': '' @ json_dumps v) kvs) @ ''}''"

text \<open>
  \<open>json.loads(s)\<close>: a recursive-descent reader for the same values. White space is
  skipped around values and separators; a number with a fraction or an exponent is a
  float and is rejected here; a key that occurs twice keeps its first position and its
  last value, as a dict does. The fuel of the reader is the length of its input, which
  bounds the nesting depth.
\<close>

definition is_ws :: "char \<Rightarrow> bool" where
  "is_ws c = (c = CHR '' '' \<or> c = CHR 0x09 \<or> c = CHR 0x0A \<or> c = CHR 0x0D)"

definition skip_ws :: "string \<Rightarrow> string" where
  "skip_ws s = dropWhile is_ws s"

definition is_digit :: "char \<Rightarrow> bool" where
  "is_digit c = (48 \<le> (of_char c :: nat) \<and> (of_char c :: nat) \<le> 57)"

definition hex_val :: "char \<Rightarrow> nat option" where
  "hex_val c =
     (let n = (of_char c :: nat) in
      if 48 \<le> n \<and> n \<le> 57 then Some (n - 48)
      else if 97 \<le> n \<and> n \<le> 102 then Some (n - 87)
      else if 65 \<le> n \<and> n \<le> 70 then Some (n - 55)
      else None)"

definition unescape :: "char \<Rightarrow> char option" where
  "unescape e =
     (if e = CHR 0x22 then Some (CHR 0x22)
      else if e = CHR 0x5C then Some (CHR 0x5C)
      else if e = CHR ''/'' then Some (CHR ''/'')
      else if e = CHR ''n'' then Some (CHR 0x0A)
      else if e = CHR ''r'' then Some (CHR 0x0D)
      else if e = CHR ''t'' then Some (CHR 0x09)
      else if e = CHR ''b'' then Some (CHR 0x08)
      else if e = CHR ''f'' then Some (CHR 0x0C)
      else None)"

definition unhex4 :: "char \<Rightarrow> char \<Rightarrow> char \<Rightarrow> char \<Rightarrow> nat option" where
  "unhex4 a b c d =
     (case (hex_val a, hex_val b, hex_val c, hex_val d) of
        (Some x, Some y, Some z, Some w) \<Rightarrow> Some (((x * 16 + y) * 16 + z) * 16 + w)
      | _ \<Rightarrow> None)"

definition cons_char :: "char \<Rightarrow> (string \<times> string) option \<Rightarrow> (string \<times> string) option" where
  "cons_char c r = (case r of None \<Rightarrow> None | Some (s, rest) \<Rightarrow> Some (c # s, rest))"

fun parse_chars :: "string \<Rightarrow> (string \<times> string) option" where
  "parse_chars [] = None"
| "parse_chars (c # cs) =
     (if c = CHR 0x22 then Some ([], cs)
      else if c = CHR 0x5C then
        (case cs of
           [] \<Rightarrow> None
         | e # r \<Rightarrow>
             if e = CHR ''u'' then
               (case r of
                  h1 # h2 # h3 # h4 # r' \<Rightarrow>
                    (case unhex4 h1 h2 h3 h4 of
                       None \<Rightarrow> None
                     | Some n \<Rightarrow> if n < 256 then cons_char (char_of n) (parse_chars r') else None)
                | _ \<Rightarrow> None)
             else (case unescape e of
                     None \<Rightarrow> None
                   | Some ch \<Rightarrow> cons_char ch (parse_chars r)))
      else if (of_char c :: nat) < 32 then None
      else cons_char c (parse_chars cs))"

definition nat_of_digits :: "string \<Rightarrow> nat" where
  "nat_of_digits ds = foldl (\<lambda>a c. 10 * a + ((of_char c :: nat) - 48)) 0 ds"

definition parse_number :: "string \<Rightarrow> (json \<times> string) option" where
  "parse_number s =
     (let neg = (s \<noteq> [] \<and> hd s = CHR ''-'');
          s1 = (if neg then tl s else s)
      in case s1 of
           [] \<Rightarrow> None
         | c # r \<Rightarrow>
             if \<not> is_digit c then None
             else
               let ds = (if c = CHR ''0'' then [c] else takeWhile is_digit s1);
                   rest = (if c = CHR ''0'' then r else dropWhile is_digit s1)
               in if rest \<noteq> [] \<and> (hd rest = CHR ''.'' \<or> hd rest = CHR ''e'' \<or> hd rest = CHR ''E'')
                  then None
                  else Some (JInt (if neg then - int (nat_of_digits ds) else int (nat_of_digits ds)),
                             rest))"

fun dict_set :: "(string \<times> json) list \<Rightarrow> string \<Rightarrow> json \<Rightarrow> (string \<times> json) list" where
  "dict_set [] k v = [(k, v)]"
| "dict_set ((k', v') # kvs) k v = (if k' = k then (k, v) # kvs else (k', v') # dict_set kvs k v)"

fun parse_value :: "nat \<Rightarrow> string \<Rightarrow> (json \<times> string) option"
  and parse_elems :: "nat \<Rightarrow> json list \<Rightarrow> string \<Rightarrow> (json \<times> string) option"
  and parse_members :: "nat \<Rightarrow> (string \<times> json) list \<Rightarrow> string \<Rightarrow> (json \<times> string) option"
where
  "parse_value 0 s = None"
| "parse_value (Suc f) s =
     (case s of
        [] \<Rightarrow> None
      | c # r \<Rightarrow>
          if c = CHR 0x22 then
            (case parse_chars r of None \<Rightarrow> None | Some (str, r') \<Rightarrow> Some (JStr str, r'))
          else if c = CHR ''['' then
            (case skip_ws r of
               [] \<Rightarrow> None
             | d # r' \<Rightarrow> if d = CHR '']'' then Some (JArr [], r') else parse_elems f [] (d # r'))
          else if c = CHR ''{'' then
            (case skip_ws r of
               [] \<Rightarrow> None
             | d # r' \<Rightarrow> if d = CHR ''}'' then Some (JObj [], r') else parse_members f [] (d # r'))
          else if take 4 s = ''null'' then Some (JNull, drop 4 s)
          else if take 4 s = ''true'' then Some (JBool True, drop 4 s)
          else if take 5 s = ''false'' then Some (JBool False, drop 5 s)
          else parse_number s)"
| "parse_elems 0 acc s = None"
| "parse_elems (Suc f) acc s =
     (case parse_value f s of
        None \<Rightarrow> None
      | Some (v, r) \<Rightarrow>
          (case skip_ws r of
             [] \<Rightarrow> None
           | c # r' \<Rightarrow>
               if c = CHR '','' then parse_elems f (acc @ [v]) (skip_ws r')
               else if c = CHR '']'' then Some (JArr (acc @ [v]), r')
               else None))"
| "parse_members 0 acc s = None"
| "parse_members (Suc f) acc s =
     (case s of
        [] \<Rightarrow> None
      | q # r0 \<Rightarrow>
          if q \<noteq> CHR 0x22 then None
          else
            (case parse_chars r0 of
               None \<Rightarrow> None
             | Some (k, r1) \<Rightarrow>
                 (case skip_ws r1 of
                    [] \<Rightarrow> None
                  | c # r2 \<Rightarrow>
                      if c \<noteq> CHR '':'' then None
                      else
                        (case parse_value f (skip_ws r2) of
                           None \<Rightarrow> None
                         | Some (v, r3) \<Rightarrow>
                             (case skip_ws r3 of
                                [] \<Rightarrow> None
                              | d # r4 \<Rightarrow>
                                  if d = CHR '','' then parse_members f (dict_set acc k v) (skip_ws r4)
                                  else if d = CHR ''}'' then Some (JObj (dict_set acc k v), r4)
                                  else None)))))"

definition json_loads :: "string \<Rightarrow> exn + json" where
  "json_loads s =
     (case parse_value (Suc (length s)) (skip_ws s) of
        None \<Rightarrow> Inl (JSONDecodeError ''Expecting value'')
      | Some (v, r) \<Rightarrow> if skip_ws r = [] then Inr v else Inl (JSONDecodeError ''Extra data''))"

text \<open>A value whose dicts have distinct keys, as every Python dict has.\<close>

fun wf_json :: "json \<Rightarrow> bool" where
  "wf_json (JArr xs) = list_all wf_json xs"
| "wf_json (JObj kvs) = (distinct (map fst kvs) \<and> list_all (\<lambda>kv. wf_json (snd kv)) kvs)"
| "wf_json _ = True"

text \<open>Notions used to state how the reader runs over the writer's output.\<close>

definition delim :: "string \<Rightarrow> bool" where
  "delim rest = (case rest of [] \<Rightarrow> True | c # _ \<Rightarrow> c = CHR '','' \<or> c = CHR '']'' \<or> c = CHR ''}'')"

definition starts_value :: "string \<Rightarrow> bool" where
  "starts_value s = (case s of [] \<Rightarrow> False
     | c # _ \<Rightarrow> \<not> is_ws c \<and> c \<noteq> CHR '']'' \<and> c \<noteq> CHR ''}'')"

definition roundtrips :: "json \<Rightarrow> bool" where
  "roundtrips v = (\<forall>f rest. length (json_dumps v) \<le> f \<longrightarrow> delim rest \<longrightarrow>
      parse_value f (json_dumps v @ rest) = Some (v, rest))"

definition member_text :: "string \<times> json \<Rightarrow> string" where
  "member_text kv = dumps_str (fst kv) @ '': '' @ json_dumps (snd kv)"

text \<open>The slice \<open>xs[i:]\<close>: a negative start counts from the end and is clipped at 0.\<close>

definition py_slice_from :: "int \<Rightarrow> 'a list \<Rightarrow> 'a list" where
  "py_slice_from i xs =
     (let n = int (length xs);
          j = (if i < 0 then max 0 (n + i) else min i n)
      in drop (nat j) xs)"

section \<open>Signing and verifying artifacts (fedmcp/artifact.py)\<close>

text \<open>
  The jwcrypto library, as far as artifact.py calls it. A key is a value of type \<open>'k\<close>
  read from PEM text; ES256 signing draws a fresh nonce \<open>'n\<close> on every call. A token
  holds the protected header, the payload and the signature; the compact form is the
  string \<open>serialize_compact\<close> writes and \<open>deserialize\<close> reads back. The signature
  covers the protected header and the payload. \<open>verify\<close> with a single key checks the
  signature under that key and does not compare the header's \<open>kid\<close> with anything.
  The text of \<open>InvalidJWSSignature\<close> is cut before the log of attempts the library
  appends to it.
\<close>

record jose_header =
  alg :: string
  typ_hdr :: string
  kid :: string

record jws_token =
  protected :: jose_header
  payload :: string
  signature :: string

record ('k, 'n) jwcrypto =
  from_pem :: "string \<Rightarrow> 'k option"
  es256_sign :: "'k \<Rightarrow> 'n \<Rightarrow> jose_header \<Rightarrow> string \<Rightarrow> string option"
  es256_verify :: "'k \<Rightarrow> jose_header \<Rightarrow> string \<Rightarrow> string \<Rightarrow> bool"
  serialize_compact :: "jws_token \<Rightarrow> string"
  deserialize :: "string \<Rightarrow> jws_token option"

text \<open>
  \<open>sign_artifact(art, pem_private, kid)\<close>. The artifact is a plain dict at run time.
  \<open>key.update(kid=kid, alg="ES256")\<close> only annotates the key object. The last
  argument is the nonce the signature draws.
\<close>

definition sign_artifact ::
  "('k, 'n) jwcrypto \<Rightarrow> json \<Rightarrow> string \<Rightarrow> string \<Rightarrow> 'n \<Rightarrow> exn + string" where
  "sign_artifact L art pem_private kid_arg nonce =
     (case from_pem L pem_private of
        None \<Rightarrow> Inl (ValueError ''Could not deserialize key data'')
      | Some key \<Rightarrow>
          let body = json_dumps art;
              hdr = \<lparr>alg = ''ES256'', typ_hdr = ''JWT'', kid = kid_arg\<rparr>
          in case es256_sign L key nonce hdr body of
               None \<Rightarrow> Inl (LibraryError ''signing key cannot sign'')
             | Some sg \<Rightarrow>
                 Inr (serialize_compact L \<lparr>protected = hdr, payload = body, signature = sg\<rparr>))"

text \<open>\<open>art["workspaceId"]\<close> on the value \<open>json.loads\<close> returned.\<close>

fun py_getitem :: "json \<Rightarrow> string \<Rightarrow> exn + json" where
  "py_getitem (JObj kvs) k =
     (case map_of kvs k of None \<Rightarrow> Inl (KeyError k) | Some v \<Rightarrow> Inr v)"
| "py_getitem (JArr xs) k = Inl (TypeError ''list indices must be integers or slices, not str'')"
| "py_getitem (JStr s) k = Inl (TypeError ''string indices must be integers'')"
| "py_getitem v k =
     Inl (TypeError ([CHR 0x27] @ py_type_name v @ [CHR 0x27] @ '' object is not subscriptable''))"

text \<open>
  \<open>verify_artifact(jws_compact, pem_public, expected_workspace)\<close>: the key is the one
  the caller passes; the checks run in the order of the source and the first failure is
  raised.
\<close>

definition verify_artifact ::
  "('k, 'n) jwcrypto \<Rightarrow> string \<Rightarrow> string \<Rightarrow> string \<Rightarrow> exn + json" where
  "verify_artifact L jws_compact pem_public expected_workspace =
     (case from_pem L pem_public of
        None \<Rightarrow> Inl (ValueError ''Could not deserialize key data'')
      | Some key \<Rightarrow>
          (case deserialize L jws_compact of
             None \<Rightarrow> Inl (InvalidJWSObject ''Invalid JWS Object [Invalid format]'')
           | Some token \<Rightarrow>
               if \<not> es256_verify L key (protected token) (payload token) (signature token)
               then Inl (InvalidJWSSignature ''Verification failed for all signatures'')
               else
                 (case json_loads (payload token) of
                    Inl e \<Rightarrow> Inl e
                  | Inr art \<Rightarrow>
                      (case py_getitem art ''workspaceId'' of
                         Inl e \<Rightarrow> Inl e
                       | Inr w \<Rightarrow>
                           if w \<noteq> JStr expected_workspace
                           then Inl (ValueError ''workspaceId mismatch'')
                           else Inr art))))"

text \<open>
  What the theorems below assume of the library: reading a compact token back gives the token
  that was written, and a key pair matches when every signature made with the private key
  verifies under the public key.
\<close>

definition compact_roundtrip :: "('k, 'n) jwcrypto \<Rightarrow> bool" where
  "compact_roundtrip L = (\<forall>t. deserialize L (serialize_compact L t) = Some t)"

definition matching_keys :: "('k, 'n) jwcrypto \<Rightarrow> 'k \<Rightarrow> 'k \<Rightarrow> bool" where
  "matching_keys L sk pk =
     (\<forall>n h m. case es256_sign L sk n h m of None \<Rightarrow> False | Some s \<Rightarrow> es256_verify L pk h m s)"

definition key_pair :: "('k, 'n) jwcrypto \<Rightarrow> string \<Rightarrow> string \<Rightarrow> bool" where
  "key_pair L pem_private pem_public =
     (case (from_pem L pem_private, from_pem L pem_public) of
        (Some sk, Some pk) \<Rightarrow> matching_keys L sk pk
      | _ \<Rightarrow> False)"

text \<open>
  A valid \<open>Artifact\<close>: a dict with exactly the six keys of the \<open>TypedDict\<close>, in any
  order, each of its declared type.
\<close>

definition artifact_keys :: "string list" where
  "artifact_keys = [''id'', ''type'', ''version'', ''workspaceId'', ''createdAt'', ''jsonBody'']"

fun is_str :: "json \<Rightarrow> bool" where
  "is_str (JStr s) = True"
| "is_str v = False"

fun is_int :: "json \<Rightarrow> bool" where
  "is_int (JInt i) = True"
| "is_int v = False"

definition has_field :: "(json \<Rightarrow> bool) \<Rightarrow> (string \<times> json) list \<Rightarrow> string \<Rightarrow> bool" where
  "has_field P kvs k = (case map_of kvs k of None \<Rightarrow> False | Some v \<Rightarrow> P v)"

fun valid_artifact :: "json \<Rightarrow> bool" where
  "valid_artifact (JObj kvs) =
     (wf_json (JObj kvs) \<and> set (map fst kvs) = set artifact_keys \<and>
      has_field is_str kvs ''id'' \<and> has_field is_str kvs ''type'' \<and>
      has_field is_int kvs ''version'' \<and> has_field is_str kvs ''workspaceId'' \<and>
      has_field is_str kvs ''createdAt'')"
| "valid_artifact v = False"

text \<open>The payload of a compact token, as the reader of the library sees it.\<close>

definition signed_payload :: "('k, 'n) jwcrypto \<Rightarrow> string \<Rightarrow> string option" where
  "signed_payload L jws_compact = map_option payload (deserialize L jws_compact)"

text \<open>
  Signing and then verifying, as tests/test\_roundtrip.py chains the two calls; and the
  payload of the token that signing returns.
\<close>

definition sign_then_verify ::
  "('k, 'n) jwcrypto \<Rightarrow> json \<Rightarrow> string \<Rightarrow> string \<Rightarrow> 'n \<Rightarrow> string \<Rightarrow> string \<Rightarrow> exn + json" where
  "sign_then_verify L art pem_private kid_arg nonce pem_public expected_workspace =
     (case sign_artifact L art pem_private kid_arg nonce of
        Inl e \<Rightarrow> Inl e
      | Inr jws_compact \<Rightarrow> verify_artifact L jws_compact pem_public expected_workspace)"

definition payload_signed ::
  "('k, 'n) jwcrypto \<Rightarrow> json \<Rightarrow> string \<Rightarrow> string \<Rightarrow> 'n \<Rightarrow> string option" where
  "payload_signed L art pem_private kid_arg nonce =
     (case sign_artifact L art pem_private kid_arg nonce of
        Inl e \<Rightarrow> None
      | Inr jws_compact \<Rightarrow> signed_payload L jws_compact)"

text \<open>The \<open>workspaceId\<close> of an artifact, and two dicts with the same items in any order.\<close>

definition artifact_workspace :: "json \<Rightarrow> string" where
  "artifact_workspace a =
     (case py_getitem a ''workspaceId'' of Inr (JStr w) \<Rightarrow> w | _ \<Rightarrow> [])"

fun same_fields :: "json \<Rightarrow> json \<Rightarrow> bool" where
  "same_fields (JObj kvs) (JObj kvs') = (set kvs = set kvs')"
| "same_fields a b = (a = b)"

section \<open>Audit events on standard output (fedmcp/audit.py)\<close>

text \<open>
  \<open>AuditAction = Literal["create", "update", "deploy", "delete"]\<close>: the annotation of
  the \<open>action\<close> parameter of \<open>emit_event\<close>. Python does not check an annotation when
  the function is called, so \<open>emit_event\<close> runs on any string.
\<close>

definition AuditAction :: "string list" where
  "AuditAction = [''create'', ''update'', ''deploy'', ''delete'']"

text \<open>The enumeration of the specification.\<close>

definition spec_actions :: "string list" where
  "spec_actions = [''create'', ''read'', ''update'', ''delete'', ''verify'', ''deploy'']"

text \<open>
  \<open>emit_event(artifact_id, action, actor)\<close>: builds the event and prints it as one line.
  \<open>event_id\<close> is the text of the fresh \<open>uuid4()\<close> and \<open>now\<close> the ISO text of the
  clock; standard output is the list of lines printed so far.
\<close>

definition audit_evt :: "string \<Rightarrow> string \<Rightarrow> string \<Rightarrow> string \<Rightarrow> string \<Rightarrow> json" where
  "audit_evt artifact_id_arg act actor_name event_id now =
     JObj [(''eventId'', JStr event_id), (''artifactId'', JStr artifact_id_arg),
           (''action'', JStr act), (''actor'', JStr actor_name), (''timestamp'', JStr now)]"

definition emit_event ::
  "string list \<Rightarrow> string \<Rightarrow> string \<Rightarrow> string \<Rightarrow> string \<Rightarrow> string \<Rightarrow> string list" where
  "emit_event stdout artifact_id_arg act actor_name event_id now =
     stdout @ [json_dumps (audit_evt artifact_id_arg act actor_name event_id now)]"

section \<open>The server's audit log (fedmcp\_server.py)\<close>

text \<open>
  Modelled from the spec: the enum \<open>AuditAction\<close> that fedmcp\_server.py imports from the
  core package is not in the source tree; the server names its members \<open>CREATE\<close>,
  \<open>READ\<close> and \<open>VERIFY\<close>, the spec lists six actions.
\<close>

datatype AuditActionEnum = CREATE | READ | UPDATE | DELETE | VERIFY | DEPLOY

text \<open>
  One entry of \<open>audit_logs\<close>: the fields \<open>log_audit_event\<close> passes to \<open>AuditEvent\<close>.
  \<open>'u\<close> is the type of \<open>uuid.UUID\<close> values.
\<close>

record 'u audit_event =
  action :: AuditActionEnum
  actor :: string
  artifactId :: "'u option"
  workspaceId :: 'u
  metadata :: "(string \<times> json) list"

text \<open>
  \<open>e.get("artifactId") == artifact_id\<close>: the stored value against the query string.
  \<open>py_eq\<close> is Python's \<open>==\<close> between a stored UUID value and a \<open>str\<close>;
  \<open>None\<close> equals no string.
\<close>

definition artifactId_matches :: "('u \<Rightarrow> string \<Rightarrow> bool) \<Rightarrow> string \<Rightarrow> 'u audit_event \<Rightarrow> bool" where
  "artifactId_matches py_eq artifact_id e =
     (case artifactId e of None \<Rightarrow> False | Some u \<Rightarrow> py_eq u artifact_id)"

definition workspaceId_matches :: "('u \<Rightarrow> string \<Rightarrow> bool) \<Rightarrow> string \<Rightarrow> 'u audit_event \<Rightarrow> bool" where
  "workspaceId_matches py_eq workspace_id e = py_eq (workspaceId e) workspace_id"

text \<open>
  \<open>if artifact_id:\<close> on an optional query parameter: the filter is applied when the
  parameter is given and is not the empty string.
\<close>

definition get_audit_events ::
  "('u \<Rightarrow> string \<Rightarrow> bool) \<Rightarrow> 'u audit_event list \<Rightarrow> string option \<Rightarrow> string option \<Rightarrow> int
     \<Rightarrow> 'u audit_event list" where
  "get_audit_events py_eq audit_logs artifact_id workspace_id limit =
     (let events = py_slice_from (- limit) audit_logs;
          events = (case artifact_id of
                      None \<Rightarrow> events
                    | Some a \<Rightarrow> if a \<noteq> [] then filter (artifactId_matches py_eq a) events
                               else events);
          events = (case workspace_id of
                      None \<Rightarrow> events
                    | Some w \<Rightarrow> if w \<noteq> [] then filter (workspaceId_matches py_eq w) events
                               else events)
      in events)"

text \<open>
  The query as the specification words it: the events matching every given filter,
  most recent first, cut to \<open>limit\<close>.
\<close>

definition matches_filters ::
  "('u \<Rightarrow> string \<Rightarrow> bool) \<Rightarrow> string option \<Rightarrow> string option \<Rightarrow> 'u audit_event \<Rightarrow> bool" where
  "matches_filters py_eq artifact_id workspace_id e =
     ((case artifact_id of None \<Rightarrow> True
         | Some a \<Rightarrow> a = [] \<or> artifactId_matches py_eq a e) \<and>
      (case workspace_id of None \<Rightarrow> True
         | Some w \<Rightarrow> w = [] \<or> workspaceId_matches py_eq w e))"

definition spec_query ::
  "('u \<Rightarrow> string \<Rightarrow> bool) \<Rightarrow> 'u audit_event list \<Rightarrow> string option \<Rightarrow> string option \<Rightarrow> int
     \<Rightarrow> 'u audit_event list" where
  "spec_query py_eq audit_logs artifact_id workspace_id limit =
     take (nat limit) (filter (matches_filters py_eq artifact_id workspace_id) (rev audit_logs))"

text \<open>The last \<open>n\<close> entries of a list, in their order.\<close>

definition last_n :: "nat \<Rightarrow> 'a list \<Rightarrow> 'a list" where
  "last_n n xs = drop (length xs - n) xs"

text \<open>Two log entries for concrete runs, with UUID values written as strings.\<close>

definition entry_create :: "string audit_event" where
  "entry_create = \<lparr>action = CREATE, actor = ''user:alice'', artifactId = Some ''a1'',
                    workspaceId = ''w1'', metadata = []\<rparr>"

definition entry_read :: "string audit_event" where
  "entry_read = \<lparr>action = READ, actor = ''user:bob'', artifactId = Some ''a2'',
                  workspaceId = ''w1'', metadata = []\<rparr>"

section \<open>Storage backends (fedmcp\_server.py)\<close>

text \<open>
  The file system a \<open>LocalStorage\<close> writes to: the text of each file by path, and
  whether the system lets a path be opened for writing (the directory exists, the name is
  legal, permissions allow it).
\<close>

record filesystem =
  files :: "string \<Rightarrow> string option"
  can_write :: "string \<Rightarrow> bool"

text \<open>The bucket an \<open>S3Storage\<close> talks to: the body of each object by key, and
  whether the service answers.\<close>

record bucket =
  objects :: "string \<Rightarrow> string option"
  reachable :: bool

datatype storage_backend =
    LocalStorage string filesystem
  | S3Storage string bucket

text \<open>
  \<open>self.path / f"{artifact_id}.json"\<close>: joining with an absolute name gives that name.
  The normalisation pathlib applies to the joined text is not modelled.
\<close>

definition path_join :: "string \<Rightarrow> string \<Rightarrow> string" where
  "path_join root name =
     (if name \<noteq> [] \<and> hd name = CHR ''/'' then name else root @ ''/'' @ name)"

definition file_path :: "string \<Rightarrow> string \<Rightarrow> string" where
  "file_path root artifact_id = path_join root (artifact_id @ ''.json'')"

definition object_key :: "string \<Rightarrow> string" where
  "object_key artifact_id = ''artifacts/'' @ artifact_id @ ''.json''"

fun store_artifact :: "storage_backend \<Rightarrow> string \<Rightarrow> json \<Rightarrow> exn + storage_backend" where
  "store_artifact (LocalStorage root fs) artifact_id data =
     (let p = file_path root artifact_id
      in if \<not> can_write fs p then Inl (OSError ''cannot open file for writing'')
         else Inr (LocalStorage root (fs\<lparr>files := (files fs)(p \<mapsto> json_dumps data)\<rparr>)))"
| "store_artifact (S3Storage b s3) artifact_id data =
     (if \<not> reachable s3 then Inl (ClientError ''PutObject failed'')
      else Inr (S3Storage b
                  (s3\<lparr>objects := (objects s3)(object_key artifact_id \<mapsto> json_dumps data)\<rparr>)))"

fun get_artifact :: "storage_backend \<Rightarrow> string \<Rightarrow> exn + json option" where
  "get_artifact (LocalStorage root fs) artifact_id =
     (case files fs (file_path root artifact_id) of
        None \<Rightarrow> Inr None
      | Some text \<Rightarrow> (case json_loads text of Inl e \<Rightarrow> Inl e | Inr data \<Rightarrow> Inr (Some data)))"
| "get_artifact (S3Storage b s3) artifact_id =
     (if \<not> reachable s3 then Inl (ClientError ''GetObject failed'')
      else case objects s3 (object_key artifact_id) of
             None \<Rightarrow> Inr None
           | Some body \<Rightarrow> (case json_loads body of Inl e \<Rightarrow> Inl e | Inr data \<Rightarrow> Inr (Some data)))"

section \<open>The request handlers (fedmcp\_server.py)\<close>

text \<open>
  The classes the server imports from the core package, which is not in the source tree:
  the \<open>Artifact\<close> model (type \<open>'a\<close>) with its constructor, \<open>validate\<close>,
  \<open>model_dump\<close> and the texts of its \<open>id\<close> and \<open>workspaceId\<close>; the signer and
  the verifier; and \<open>uuid.UUID\<close>, whose values have type \<open>'u\<close> (\<open>None\<close> where it
  raises ValueError). They are parameters of the handlers.
\<close>

record ('a, 'u) core =
  Artifact_new :: "(string \<times> json) list \<Rightarrow> exn + 'a"
  artifact_validate :: "'a \<Rightarrow> exn option"
  artifact_dump :: "'a \<Rightarrow> json"
  artifact_id_str :: "'a \<Rightarrow> string"
  artifact_workspace_str :: "'a \<Rightarrow> string"
  signer_sign :: "'a \<Rightarrow> exn + string"
  verifier_verify :: "string \<Rightarrow> exn + 'a"
  UUID_parse :: "string \<Rightarrow> 'u option"

record 'u server =
  storage :: storage_backend
  audit_logs :: "'u audit_event list"

text \<open>\<open>str(e)\<close>: the message of the exception; a \<open>KeyError\<close> shows its key quoted, an
  \<open>HTTPException\<close> its status and detail.\<close>

fun str_exn :: "exn \<Rightarrow> string" where
  "str_exn (ValueError m) = m"
| "str_exn (KeyError k) = [CHR 0x27] @ k @ [CHR 0x27]"
| "str_exn (TypeError m) = m"
| "str_exn (AttributeError m) = m"
| "str_exn (JSONDecodeError m) = m"
| "str_exn (OSError m) = m"
| "str_exn (ClientError m) = m"
| "str_exn (InvalidJWSObject m) = m"
| "str_exn (InvalidJWSSignature m) = m"
| "str_exn (LibraryError m) = m"
| "str_exn (HTTPException c m) = digits c @ '': '' @ m"

record JWSResponse =
  jws :: string
  artifact_id :: string
  workspace_id :: string

record VerifyResponse =
  valid :: bool
  artifact :: "json option"
  error :: "string option"

text \<open>\<open>UUID(x)\<close> on a run-time value: a string is parsed, anything else has no
  \<open>replace\<close> method.\<close>

fun UUID_of :: "('a, 'u) core \<Rightarrow> json \<Rightarrow> exn + 'u" where
  "UUID_of C (JStr s) =
     (case UUID_parse C s of
        None \<Rightarrow> Inl (ValueError ''badly formed hexadecimal UUID string'')
      | Some u \<Rightarrow> Inr u)"
| "UUID_of C v =
     Inl (AttributeError ([CHR 0x27] @ py_type_name v @ [CHR 0x27]
                           @ '' object has no attribute '' @ [CHR 0x27] @ ''replace'' @ [CHR 0x27]))"

definition nil_uuid :: string where
  "nil_uuid = ''00000000-0000-0000-0000-000000000000''"

text \<open>
  \<open>log_audit_event(action, actor, artifact_id, workspace_id, metadata)\<close>: builds the
  event, the artifact id first, and appends it to \<open>audit_logs\<close>. An argument left out
  is \<open>JNull\<close>. The result is the new log, or the exception raised before the append.
\<close>

definition log_audit_event ::
  "('a, 'u) core \<Rightarrow> 'u audit_event list \<Rightarrow> AuditActionEnum \<Rightarrow> string \<Rightarrow> json \<Rightarrow> json
     \<Rightarrow> (string \<times> json) list option \<Rightarrow> exn + 'u audit_event list" where
  "log_audit_event C logs act user artifact_id_arg workspace_id_arg metadata_arg =
     (case (if py_truthy artifact_id_arg
            then (case UUID_of C artifact_id_arg of Inl e \<Rightarrow> Inl e | Inr u \<Rightarrow> Inr (Some u))
            else Inr None) of
        Inl e \<Rightarrow> Inl e
      | Inr aid \<Rightarrow>
          (case (if py_truthy workspace_id_arg then UUID_of C workspace_id_arg
                 else UUID_of C (JStr nil_uuid)) of
             Inl e \<Rightarrow> Inl e
           | Inr wid \<Rightarrow>
               Inr (logs @ [\<lparr>action = act, actor = user, artifactId = aid, workspaceId = wid,
                              metadata = (case metadata_arg of None \<Rightarrow> [] | Some m \<Rightarrow> m)\<rparr>])))"

text \<open>The body of the \<open>try\<close> block of \<open>create_artifact\<close>, with the state it leaves.\<close>

definition create_artifact_body ::
  "('a, 'u) core \<Rightarrow> 'u server \<Rightarrow> (string \<times> json) list \<Rightarrow> bool \<Rightarrow> string
     \<Rightarrow> (exn + JWSResponse) \<times> 'u server" where
  "create_artifact_body C st request_artifact request_sign current_user =
     (case Artifact_new C request_artifact of
        Inl e \<Rightarrow> (Inl e, st)
      | Inr art \<Rightarrow>
          (case artifact_validate C art of
             Some e \<Rightarrow> (Inl e, st)
           | None \<Rightarrow>
               (case (if request_sign
                      then (case signer_sign C art of
                              Inl e \<Rightarrow> Inl e
                            | Inr jws_token \<Rightarrow>
                                (case store_artifact (storage st) (artifact_id_str C art)
                                        (JObj [(''artifact'', artifact_dump C art),
                                               (''jws'', JStr jws_token)]) of
                                   Inl e \<Rightarrow> Inl e
                                 | Inr sto \<Rightarrow> Inr (Some jws_token, sto)))
                      else (case store_artifact (storage st) (artifact_id_str C art)
                                   (JObj [(''artifact'', artifact_dump C art)]) of
                              Inl e \<Rightarrow> Inl e
                            | Inr sto \<Rightarrow> Inr (None, sto))) of
                  Inl e \<Rightarrow> (Inl e, st)
                | Inr (jws_token, sto) \<Rightarrow>
                    (case log_audit_event C (audit_logs st) CREATE current_user
                            (JStr (artifact_id_str C art)) (JStr (artifact_workspace_str C art))
                            None of
                       Inl e \<Rightarrow> (Inl e, st\<lparr>storage := sto\<rparr>)
                     | Inr logs \<Rightarrow>
                         (Inr \<lparr>jws = (case jws_token of None \<Rightarrow> [] | Some t \<Rightarrow> t),
                               artifact_id = artifact_id_str C art,
                               workspace_id = artifact_workspace_str C art\<rparr>,
                          st\<lparr>storage := sto, audit_logs := logs\<rparr>)))))"

text \<open>\<open>create_artifact\<close>: any exception of the body becomes an HTTP 400.\<close>

definition create_artifact ::
  "('a, 'u) core \<Rightarrow> 'u server \<Rightarrow> (string \<times> json) list \<Rightarrow> bool \<Rightarrow> string
     \<Rightarrow> (exn + JWSResponse) \<times> 'u server" where
  "create_artifact C st request_artifact request_sign current_user =
     (case create_artifact_body C st request_artifact request_sign current_user of
        (Inl e, st') \<Rightarrow> (Inl (HTTPException 400 (str_exn e)), st')
      | (Inr r, st') \<Rightarrow> (Inr r, st'))"

text \<open>\<open>data["artifact"].get("workspaceId")\<close>.\<close>

fun py_get :: "json \<Rightarrow> string \<Rightarrow> exn + json" where
  "py_get (JObj kvs) k = Inr (case map_of kvs k of None \<Rightarrow> JNull | Some v \<Rightarrow> v)"
| "py_get v k =
     Inl (AttributeError ([CHR 0x27] @ py_type_name v @ [CHR 0x27]
                           @ '' object has no attribute '' @ [CHR 0x27] @ ''get'' @ [CHR 0x27]))"

text \<open>
  The handler \<open>get_artifact\<close> of the route \<open>/artifacts/{artifact_id}\<close>. An exception it
  does not catch is the server's error response.
\<close>

definition get_artifact_handler ::
  "('a, 'u) core \<Rightarrow> 'u server \<Rightarrow> string \<Rightarrow> string \<Rightarrow> (exn + json) \<times> 'u server" where
  "get_artifact_handler C st artifact_id_arg current_user =
     (case get_artifact (storage st) artifact_id_arg of
        Inl e \<Rightarrow> (Inl e, st)
      | Inr None \<Rightarrow> (Inl (HTTPException 404 ''Artifact not found''), st)
      | Inr (Some data) \<Rightarrow>
          if \<not> py_truthy data then (Inl (HTTPException 404 ''Artifact not found''), st)
          else
            (case py_getitem data ''artifact'' of
               Inl e \<Rightarrow> (Inl e, st)
             | Inr a \<Rightarrow>
                 (case py_get a ''workspaceId'' of
                    Inl e \<Rightarrow> (Inl e, st)
                  | Inr w \<Rightarrow>
                      (case log_audit_event C (audit_logs st) READ current_user
                              (JStr artifact_id_arg) w None of
                         Inl e \<Rightarrow> (Inl e, st)
                       | Inr logs \<Rightarrow> (Inr data, st\<lparr>audit_logs := logs\<rparr>)))))"

text \<open>
  The handler \<open>verify_artifact\<close> of the route \<open>/artifacts/verify\<close>: every exception of
  the \<open>try\<close> block becomes a response with \<open>valid=False\<close> and \<open>error=str(e)\<close>.
\<close>

definition verify_artifact_handler ::
  "('a, 'u) core \<Rightarrow> 'u server \<Rightarrow> string \<Rightarrow> string \<Rightarrow> VerifyResponse \<times> 'u server" where
  "verify_artifact_handler C st request_jws current_user =
     (case verifier_verify C request_jws of
        Inl e \<Rightarrow> (\<lparr>valid = False, artifact = None, error = Some (str_exn e)\<rparr>, st)
      | Inr art \<Rightarrow>
          (case log_audit_event C (audit_logs st) VERIFY current_user
                  (JStr (artifact_id_str C art)) (JStr (artifact_workspace_str C art)) None of
             Inl e \<Rightarrow> (\<lparr>valid = False, artifact = None, error = Some (str_exn e)\<rparr>, st)
           | Inr logs \<Rightarrow>
               (\<lparr>valid = True, artifact = Some (artifact_dump C art), error = None\<rparr>,
                st\<lparr>audit_logs := logs\<rparr>)))"

section \<open>Concrete data\<close>

text \<open>
  A small stand-in for the library, to run the code on concrete inputs: the private key
  \<open>sk:A\<close> pairs with the public key \<open>pk:A\<close>, a signature is a text naming the key,
  the header's \<open>kid\<close> and the payload, and the compact form is the JSON list of the five
  parts of a token.
\<close>

definition demo_jwcrypto :: "(string, unit) jwcrypto" where
  "demo_jwcrypto =
     \<lparr>from_pem = (\<lambda>pem. if pem = [] then None else Some pem),
      es256_sign = (\<lambda>k n h m. if take 3 k = ''sk:''
                      then Some (''sig:'' @ drop 3 k @ '':'' @ kid h @ '':'' @ m) else None),
      es256_verify = (\<lambda>k h m s. s = ''sig:'' @ drop 3 k @ '':'' @ kid h @ '':'' @ m),
      serialize_compact = (\<lambda>t. json_dumps (JArr [JStr (alg (protected t)), JStr (typ_hdr (protected t)),
                                 JStr (kid (protected t)), JStr (payload t), JStr (signature t)])),
      deserialize = (\<lambda>s. case json_loads s of
                        Inr (JArr [JStr a, JStr ty, JStr k, JStr p, JStr sg]) \<Rightarrow>
                          Some \<lparr>protected = \<lparr>alg = a, typ_hdr = ty, kid = k\<rparr>, payload = p,
                                signature = sg\<rparr>
                      | _ \<Rightarrow> None)\<rparr>"

text \<open>The artifact of the specification's scenario, a reordering of it, and one of another workspace.\<close>

definition example_fields :: "(string \<times> json) list" where
  "example_fields =
     [(''id'', JStr ''a1''), (''type'', JStr ''policy''), (''version'', JInt 1),
      (''workspaceId'', JStr ''ws-1''), (''createdAt'', JStr ''2024-01-01T00:00:00Z''),
      (''jsonBody'', JObj [(''rule'', JStr ''x'')])]"

definition example_artifact :: json where
  "example_artifact = JObj example_fields"

definition example_reordered :: json where
  "example_reordered =
     JObj [(''workspaceId'', JStr ''ws-1''), (''id'', JStr ''a1''), (''type'', JStr ''policy''),
           (''version'', JInt 1), (''createdAt'', JStr ''2024-01-01T00:00:00Z''),
           (''jsonBody'', JObj [(''rule'', JStr ''x'')])]"

definition example_other_workspace :: json where
  "example_other_workspace =
     JObj [(''id'', JStr ''a2''), (''type'', JStr ''policy''), (''version'', JInt 1),
           (''workspaceId'', JStr ''ws-2''), (''createdAt'', JStr ''2024-01-01T00:00:00Z''),
           (''jsonBody'', JNull)]"

text \<open>The token the stand-in signer returns, and one with a forged signature.\<close>

definition demo_token :: "string \<Rightarrow> json \<Rightarrow> string" where
  "demo_token k a =
     serialize_compact demo_jwcrypto
       \<lparr>protected = \<lparr>alg = ''ES256'', typ_hdr = ''JWT'', kid = k\<rparr>, payload = json_dumps a,
        signature = ''sig:A:'' @ k @ '':'' @ json_dumps a\<rparr>"

definition forged_token :: "json \<Rightarrow> string" where
  "forged_token a =
     serialize_compact demo_jwcrypto
       \<lparr>protected = \<lparr>alg = ''ES256'', typ_hdr = ''JWT'', kid = ''kid-1''\<rparr>, payload = json_dumps a,
        signature = ''forged''\<rparr>"

text \<open>
  A stand-in for the core package: an artifact is its dict, the signer and the verifier
  are those of artifact.py with the key pair above and the workspace \<open>ws-1\<close>, and a
  UUID is any non-empty text.
\<close>

definition demo_core :: "(json, string) core" where
  "demo_core =
     \<lparr>Artifact_new = (\<lambda>kvs. if valid_artifact (JObj kvs) then Inr (JObj kvs)
                            else Inl (LibraryError ''validation error'')),
      artifact_validate = (\<lambda>a. None),
      artifact_dump = (\<lambda>a. a),
      artifact_id_str = (\<lambda>a. case py_getitem a ''id'' of
                                Inr (JStr s) \<Rightarrow> if s = [] then ''nil'' else s
                              | _ \<Rightarrow> ''nil''),
      artifact_workspace_str = artifact_workspace,
      signer_sign = (\<lambda>a. sign_artifact demo_jwcrypto a ''sk:A'' ''kid-1'' ()),
      verifier_verify = (\<lambda>tok. verify_artifact demo_jwcrypto tok ''pk:A'' ''ws-1''),
      UUID_parse = (\<lambda>s. if s = [] then None else Some s)\<rparr>"

definition empty_filesystem :: filesystem where
  "empty_filesystem = \<lparr>files = (\<lambda>p. None), can_write = (\<lambda>p. True)\<rparr>"

definition empty_bucket :: bucket where
  "empty_bucket = \<lparr>objects = (\<lambda>k. None), reachable = True\<rparr>"

definition server0 :: "string server" where
  "server0 = \<lparr>storage = LocalStorage ''/tmp/fedmcp'' empty_filesystem, audit_logs = []\<rparr>"

definition server1 :: "string server" where
  "server1 = snd (create_artifact demo_core server0 example_fields True ''user:alice'')"

definition event_of :: "AuditActionEnum \<Rightarrow> string \<Rightarrow> string audit_event" where
  "event_of act user = \<lparr>action = act, actor = user, artifactId = Some ''a1'',
                          workspaceId = ''ws-1'', metadata = []\<rparr>"

definition example_doc :: json where
  "example_doc = JObj [(''artifact'', example_artifact), (''jws'', JStr ''token'')]"

definition example_doc2 :: json where
  "example_doc2 = JObj [(''artifact'', example_other_workspace)]"


section \<open>Reading back what json.dumps writes\<close>

lemma of_char_char_of_nat: "n < 256 \<Longrightarrow> (of_char (char_of n) :: nat) = n"
  by simp

lemma char_of_eq_iff_nat: "n < 256 \<Longrightarrow> (char_of n = c) = (n = (of_char c :: nat))"
  by (metis of_char_char_of_nat char_of_char)

lemma hex_val_hex_digit: "d < 16 \<Longrightarrow> hex_val (hex_digit d) = Some d"
  by (auto simp: hex_val_def hex_digit_def Let_def)

lemma unhex4_hex: "n < 256 \<Longrightarrow>
  unhex4 (CHR ''0'') (CHR ''0'') (hex_digit (n div 16)) (hex_digit (n mod 16)) = Some n"
proof -
  assume n: "n < 256"
  have z: "hex_val (CHR ''0'') = Some 0" by (simp add: hex_val_def)
  have a: "hex_val (hex_digit (n div 16)) = Some (n div 16)"
    using n by (intro hex_val_hex_digit) simp
  have b: "hex_val (hex_digit (n mod 16)) = Some (n mod 16)"
    by (intro hex_val_hex_digit) simp
  show ?thesis by (simp add: unhex4_def z a b)
qed

lemma parse_chars_escape: "parse_chars (escape_char c @ r) = cons_char c (parse_chars r)"
proof -
  have n: "(of_char c :: nat) < 256" by simp
  consider (q) "c = CHR 0x22" | (b) "c = CHR 0x5C" | (n) "c = CHR 0x0A" | (r) "c = CHR 0x0D"
    | (t) "c = CHR 0x09" | (bs) "c = CHR 0x08" | (ff) "c = CHR 0x0C"
    | (u) "c \<notin> {CHR 0x22, CHR 0x5C, CHR 0x0A, CHR 0x0D, CHR 0x09, CHR 0x08, CHR 0x0C}"
          "(of_char c :: nat) < 32 \<or> 126 < (of_char c :: nat)"
    | (p) "c \<notin> {CHR 0x22, CHR 0x5C, CHR 0x0A, CHR 0x0D, CHR 0x09, CHR 0x08, CHR 0x0C}"
          "\<not> ((of_char c :: nat) < 32 \<or> 126 < (of_char c :: nat))"
    by blast
  then show ?thesis
  proof cases
    case u
    then show ?thesis
      using unhex4_hex[OF n] by (simp add: escape_char_def)
  next
    case p
    then show ?thesis by (simp add: escape_char_def)
  qed (simp_all add: escape_char_def unescape_def)
qed

lemma parse_chars_escaped:
  "parse_chars (concat (map escape_char s) @ CHR 0x22 # rest) = Some (s, rest)"
  by (induction s) (simp_all add: parse_chars_escape cons_char_def)

lemma parse_chars_dumps_str: "parse_chars (tl (dumps_str s) @ rest) = Some (s, rest)"
  by (simp add: dumps_str_def parse_chars_escaped)


lemma is_digit_hex_digit: "d < 10 \<Longrightarrow> is_digit (hex_digit d)"
  by (simp add: is_digit_def hex_digit_def)

lemma digit_val_hex_digit: "d < 10 \<Longrightarrow> (of_char (hex_digit d) :: nat) - 48 = d"
  by (simp add: hex_digit_def)

lemma digits_induct_rule:
  "(\<And>n. n < 10 \<Longrightarrow> P n) \<Longrightarrow> (\<And>n. \<not> n < 10 \<Longrightarrow> P (n div 10) \<Longrightarrow> P n) \<Longrightarrow> P (n::nat)"
  by (induction n rule: digits.induct) blast

lemma digits_not_Nil: "digits n \<noteq> []"
  by (subst digits.simps) simp

lemma digits_all_digit: "\<forall>c \<in> set (digits n). is_digit c"
proof (induction n rule: digits_induct_rule)
  case (1 n)
  then show ?case by (subst digits.simps) (simp add: is_digit_hex_digit)
next
  case (2 n)
  then show ?case by (subst digits.simps) (simp add: is_digit_hex_digit)
qed

lemma nat_of_digits_snoc:
  "nat_of_digits (ds @ [c]) = 10 * nat_of_digits ds + ((of_char c :: nat) - 48)"
  by (simp add: nat_of_digits_def)

lemma nat_of_digits_digits: "nat_of_digits (digits n) = n"
proof (induction n rule: digits_induct_rule)
  case (1 n)
  then show ?case
    by (subst digits.simps) (simp add: nat_of_digits_def digit_val_hex_digit)
next
  case (2 n)
  then show ?case
    by (subst digits.simps) (simp add: nat_of_digits_snoc digit_val_hex_digit)
qed

lemma hd_digits_zero: "0 < n \<Longrightarrow> hd (digits n) \<noteq> CHR ''0''"
proof (induction n rule: digits_induct_rule)
  case (1 n)
  then show ?case by (subst digits.simps) (auto simp: hex_digit_def char_of_eq_iff_nat)
next
  case (2 n)
  then have "0 < n div 10" by simp
  with 2 have "hd (digits (n div 10)) \<noteq> CHR ''0''" by blast
  with 2 show ?case by (subst digits.simps) (simp add: digits_not_Nil)
qed

lemma digits_zero: "digits 0 = ''0''"
  by (subst digits.simps) (simp add: hex_digit_def char_of_eq_iff_nat)

lemma is_digit_hd_digits: "is_digit (hd (digits n))"
  using digits_all_digit[of n] digits_not_Nil[of n] by (cases "digits n") auto

lemma not_digit_delim: "delim (c # r) \<Longrightarrow> \<not> is_digit c \<and> c \<noteq> CHR ''.'' \<and> c \<noteq> CHR ''e'' \<and> c \<noteq> CHR ''E''"
  by (auto simp: delim_def is_digit_def)

lemma takeWhile_digits: "delim rest \<Longrightarrow> takeWhile is_digit (digits n @ rest) = digits n"
  using digits_all_digit[of n] not_digit_delim
  by (cases rest) (auto simp: takeWhile_append2 intro!: takeWhile_eq_all_conv[THEN iffD2])

lemma dropWhile_digits: "delim rest \<Longrightarrow> dropWhile is_digit (digits n @ rest) = rest"
  using digits_all_digit[of n] not_digit_delim
  by (cases rest) (auto simp: dropWhile_append2 intro!: dropWhile_eq_Nil_conv[THEN iffD2])

lemma not_float_delim: "delim rest \<Longrightarrow>
   \<not> (rest \<noteq> [] \<and> (hd rest = CHR ''.'' \<or> hd rest = CHR ''e'' \<or> hd rest = CHR ''E''))"
  using not_digit_delim by (cases rest) auto

lemma parse_unsigned:
  assumes "delim rest"
  shows "parse_number (digits n @ rest) = Some (JInt (int n), rest)"
proof (cases "n = 0")
  case True
  then show ?thesis
    using not_float_delim[OF assms]
    by (simp add: digits_zero parse_number_def is_digit_def nat_of_digits_def Let_def)
next
  case False
  obtain c cs where d: "digits n = c # cs"
    using digits_not_Nil[of n] by (cases "digits n") auto
  have c0: "c \<noteq> CHR ''0''" using hd_digits_zero[of n] False d by simp
  have cd: "is_digit c" using is_digit_hd_digits[of n] d by simp
  have cm: "c \<noteq> CHR ''-''" using cd by (auto simp: is_digit_def)
  have tw: "takeWhile is_digit (c # cs @ rest) = c # cs"
    using takeWhile_digits[OF assms, of n] d by simp
  have dw: "dropWhile is_digit (c # cs @ rest) = rest"
    using dropWhile_digits[OF assms, of n] d by simp
  have v: "nat_of_digits (c # cs) = n" using nat_of_digits_digits[of n] d by simp
  show ?thesis
    using not_float_delim[OF assms] c0 cd cm
    by (simp add: d parse_number_def Let_def tw dw v del: takeWhile.simps dropWhile.simps)
qed

lemma parse_number_dumps_int:
  assumes "delim rest"
  shows "parse_number (dumps_int i @ rest) = Some (JInt i, rest)"
proof (cases "i < 0")
  case False
  then show ?thesis using parse_unsigned[OF assms, of "nat i"] by (simp add: dumps_int_def)
next
  case True
  let ?n = "nat (- i)"
  have pos: "0 < ?n" using True by simp
  obtain c cs where d: "digits ?n = c # cs"
    using digits_not_Nil[of ?n] by (cases "digits ?n") auto
  have c0: "c \<noteq> CHR ''0''" using hd_digits_zero[OF pos] d by simp
  have cd: "is_digit c" using is_digit_hd_digits[of ?n] d by simp
  have tw: "takeWhile is_digit (c # cs @ rest) = c # cs"
    using takeWhile_digits[OF assms, of ?n] d by simp
  have dw: "dropWhile is_digit (c # cs @ rest) = rest"
    using dropWhile_digits[OF assms, of ?n] d by simp
  have v: "nat_of_digits (c # cs) = ?n" using nat_of_digits_digits[of ?n] d by simp
  show ?thesis
    using not_float_delim[OF assms] c0 cd True
    by (simp add: dumps_int_def d parse_number_def Let_def tw dw v del: takeWhile.simps dropWhile.simps)
qed


lemma starts_value_append: "starts_value s \<Longrightarrow> starts_value (s @ r)"
  by (cases s) (auto simp: starts_value_def)

lemma starts_value_digits: "starts_value (digits n)"
  using is_digit_hd_digits[of n] digits_not_Nil[of n]
  by (cases "digits n") (auto simp: starts_value_def is_digit_def is_ws_def)

lemma starts_value_dumps_str: "starts_value (dumps_str s)"
  by (simp add: dumps_str_def starts_value_def is_ws_def)

lemma starts_value_dumps_int: "starts_value (dumps_int i)"
proof (cases "i < 0")
  case True
  then show ?thesis by (simp add: dumps_int_def starts_value_def is_ws_def)
next
  case False
  then show ?thesis by (simp add: dumps_int_def starts_value_digits)
qed

lemma starts_value_dumps: "starts_value (json_dumps v)"
proof (cases v)
  case (JInt i)
  then show ?thesis by (simp add: starts_value_dumps_int)
next
  case (JStr s)
  then show ?thesis by (simp add: starts_value_dumps_str)
qed (simp_all add: starts_value_def is_ws_def)

lemma skip_ws_starts: "starts_value s \<Longrightarrow> skip_ws s = s"
  by (cases s) (auto simp: starts_value_def skip_ws_def)

lemma skip_ws_space: "skip_ws (CHR '' '' # s) = skip_ws s"
  by (simp add: skip_ws_def is_ws_def)

lemma skip_ws_delim: "skip_ws (CHR '','' # s) = CHR '','' # s"
  "skip_ws (CHR '']'' # s) = CHR '']'' # s"
  "skip_ws (CHR ''}'' # s) = CHR ''}'' # s"
  "skip_ws (CHR '':'' # s) = CHR '':'' # s"
  by (simp_all add: skip_ws_def is_ws_def)

lemma delim_simps: "delim []" "delim (CHR '','' # s)" "delim (CHR '']'' # s)" "delim (CHR ''}'' # s)"
  by (simp_all add: delim_def)

lemma parse_value_int:
  assumes "delim rest"
  shows "parse_value (Suc f) (dumps_int i @ rest) = Some (JInt i, rest)"
proof -
  have "\<exists>c cs. dumps_int i = c # cs \<and> (c = CHR ''-'' \<or> is_digit c)"
  proof (cases "i < 0")
    case True
    then show ?thesis by (simp add: dumps_int_def)
  next
    case False
    then show ?thesis
      using is_digit_hd_digits[of "nat i"] digits_not_Nil[of "nat i"]
      by (cases "digits (nat i)") (simp_all add: dumps_int_def)
  qed
  then obtain c cs where d: "dumps_int i = c # cs" and c: "c = CHR ''-'' \<or> is_digit c"
    by blast
  have ne: "c \<noteq> CHR 0x22" "c \<noteq> CHR ''[''" "c \<noteq> CHR ''{''" "c \<noteq> CHR ''n''" "c \<noteq> CHR ''t''"
    "c \<noteq> CHR ''f''"
    using c by (auto simp: is_digit_def)
  have "parse_value (Suc f) (c # cs @ rest) = parse_number (c # cs @ rest)"
    using ne by simp
  then show ?thesis
    using parse_number_dumps_int[OF assms, of i] d by simp
qed

lemma parse_value_str: "parse_value (Suc f) (dumps_str s @ rest) = Some (JStr s, rest)"
  using parse_chars_dumps_str[of s rest] by (simp add: dumps_str_def)


lemma roundtripsD:
  "roundtrips v \<Longrightarrow> length (json_dumps v) \<le> f \<Longrightarrow> delim rest \<Longrightarrow>
     parse_value f (json_dumps v @ rest) = Some (v, rest)"
  by (simp add: roundtrips_def)

lemma join_with_Cons: "xs \<noteq> [] \<Longrightarrow> join_with sep (x # xs) = x @ sep @ join_with sep xs"
  by (cases xs) simp_all

lemma starts_value_join:
  "starts_value (join_with sep (map json_dumps xs) @ r)" if "xs \<noteq> []"
proof (cases xs)
  case Nil
  then show ?thesis using that by simp
next
  case (Cons x ys)
  have "starts_value (json_dumps x @ r')" for r'
    by (intro starts_value_append starts_value_dumps)
  then show ?thesis
    using Cons by (cases ys) (simp_all del: json_dumps.simps)
qed

lemma parse_elems_join:
  assumes "xs \<noteq> []" "\<forall>x \<in> set xs. roundtrips x"
    and "length (join_with '', '' (map json_dumps xs)) < f"
  shows "parse_elems f acc (join_with '', '' (map json_dumps xs) @ CHR '']'' # rest)
           = Some (JArr (acc @ xs), rest)"
  using assms
proof (induction xs arbitrary: f acc rule: list_nonempty_induct)
  case (single x)
  then obtain f' where f: "f = Suc f'" and le: "length (json_dumps x) \<le> f'"
    by (cases f) auto
  have "parse_value f' (json_dumps x @ CHR '']'' # rest) = Some (x, CHR '']'' # rest)"
    using single le by (intro roundtripsD) (simp_all add: delim_simps)
  then show ?case by (simp add: f skip_ws_delim)
next
  case (cons x xs)
  let ?tail = "join_with '', '' (map json_dumps xs) @ CHR '']'' # rest"
  from cons.prems cons.hyps obtain f' where f: "f = Suc f'"
    and le: "length (json_dumps x) \<le> f'"
    and lt: "length (join_with '', '' (map json_dumps xs)) < f'"
    by (cases f) (auto simp: join_with_Cons)
  have pv: "parse_value f' (json_dumps x @ CHR '','' # CHR '' '' # ?tail)
              = Some (x, CHR '','' # CHR '' '' # ?tail)"
    using cons.prems le by (intro roundtripsD) (simp_all add: delim_simps)
  have sk: "skip_ws (CHR '' '' # ?tail) = ?tail"
    using starts_value_join[OF cons.hyps(1)] by (simp add: skip_ws_space skip_ws_starts)
  have ih: "parse_elems f' (acc @ [x]) ?tail = Some (JArr ((acc @ [x]) @ xs), rest)"
    using cons.prems lt by (intro cons.IH) simp_all
  show ?case
    using pv sk ih cons.hyps by (simp add: f join_with_Cons skip_ws_delim)
qed


lemma json_dumps_JObj:
  "json_dumps (JObj kvs) = ''{'' @ join_with '', '' (map member_text kvs) @ ''}''"
proof -
  have "(\<lambda>(k, v). dumps_str k @ '': '' @ json_dumps v) = member_text"
    by (auto simp: member_text_def fun_eq_iff)
  then show ?thesis by simp
qed

lemma dict_set_fresh: "k \<notin> set (map fst acc) \<Longrightarrow> dict_set acc k v = acc @ [(k, v)]"
  by (induction acc) auto

lemma member_text_Cons: "\<exists>r. member_text kv = CHR 0x22 # r"
  by (simp add: member_text_def dumps_str_def)

lemma starts_value_members:
  "starts_value (join_with sep (map member_text kvs) @ r)" if "kvs \<noteq> []"
proof (cases kvs)
  case Nil
  then show ?thesis using that by simp
next
  case (Cons kv ys)
  have "starts_value (member_text kv @ r')" for r'
    using member_text_Cons[of kv] by (auto simp: starts_value_def is_ws_def)
  then show ?thesis
    using Cons by (cases ys) simp_all
qed

lemma parse_member_step:
  assumes "roundtrips v" "length (json_dumps v) \<le> f'" "delim R"
    and "k \<notin> set (map fst acc)"
  shows "parse_members (Suc f') acc (member_text (k, v) @ R) =
           (case skip_ws R of
              [] \<Rightarrow> None
            | d # r4 \<Rightarrow>
                if d = CHR '','' then parse_members f' (acc @ [(k, v)]) (skip_ws r4)
                else if d = CHR ''}'' then Some (JObj (acc @ [(k, v)]), r4)
                else None)"
proof -
  let ?body = "concat (map escape_char k) @ [CHR 0x22]"
  have shape: "member_text (k, v) @ R = CHR 0x22 # ?body @ CHR '':'' # CHR '' '' # json_dumps v @ R"
    by (simp add: member_text_def dumps_str_def)
  have pc: "parse_chars (?body @ CHR '':'' # CHR '' '' # json_dumps v @ R)
              = Some (k, CHR '':'' # CHR '' '' # json_dumps v @ R)"
    using parse_chars_escaped[of k "CHR '':'' # CHR '' '' # json_dumps v @ R"] by simp
  have sk: "skip_ws (CHR '' '' # json_dumps v @ R) = json_dumps v @ R"
    by (simp add: skip_ws_space skip_ws_starts starts_value_append starts_value_dumps)
  have pv: "parse_value f' (json_dumps v @ R) = Some (v, R)"
    using assms by (intro roundtripsD)
  show ?thesis
    unfolding shape
    using pc sk pv dict_set_fresh[OF assms(4), of v]
    by (simp add: skip_ws_delim del: append_assoc split: list.split)
qed


lemma parse_members_join:
  assumes "kvs \<noteq> []" "\<forall>kv \<in> set kvs. roundtrips (snd kv)"
    and "distinct (map fst acc @ map fst kvs)"
    and "length (join_with '', '' (map member_text kvs)) < f"
  shows "parse_members f acc (join_with '', '' (map member_text kvs) @ CHR ''}'' # rest)
           = Some (JObj (acc @ kvs), rest)"
  using assms
proof (induction kvs arbitrary: f acc rule: list_nonempty_induct)
  case (single kv)
  obtain k v where kv: "kv = (k, v)" by (cases kv)
  have len: "length (json_dumps v) < f"
    using single.prems by (simp add: kv member_text_def)
  then obtain f' where f: "f = Suc f'" and le: "length (json_dumps v) \<le> f'"
    by (cases f) auto
  have "parse_members (Suc f') acc (member_text (k, v) @ CHR ''}'' # rest)
          = Some (JObj (acc @ [(k, v)]), rest)"
    using single.prems le
    by (subst parse_member_step) (simp_all add: kv delim_simps skip_ws_delim)
  then show ?case by (simp add: f kv)
next
  case (cons kv kvs)
  obtain k v where kv: "kv = (k, v)" by (cases kv)
  let ?tail = "join_with '', '' (map member_text kvs) @ CHR ''}'' # rest"
  have l1: "length (json_dumps v) \<le> length (member_text (k, v))"
    by (simp add: member_text_def)
  have l2: "length (join_with '', '' (map member_text (kv # kvs)))
              = length (member_text (k, v)) + 2 + length (join_with '', '' (map member_text kvs))"
    using cons.hyps by (simp add: join_with_Cons kv)
  from cons.prems(3) l1 l2 obtain f' where f: "f = Suc f'"
    and le: "length (json_dumps v) \<le> f'"
    and lt: "length (join_with '', '' (map member_text kvs)) < f'"
    by (cases f) simp_all
  have step: "parse_members (Suc f') acc (member_text (k, v) @ CHR '','' # CHR '' '' # ?tail)
          = parse_members f' (acc @ [(k, v)]) (skip_ws (CHR '' '' # ?tail))"
    using cons.prems le
    by (subst parse_member_step) (simp_all add: kv delim_simps skip_ws_delim)
  have sk: "skip_ws (CHR '' '' # ?tail) = ?tail"
    using starts_value_members[OF cons.hyps(1)] by (simp add: skip_ws_space skip_ws_starts)
  have ih: "parse_members f' (acc @ [(k, v)]) ?tail = Some (JObj ((acc @ [(k, v)]) @ kvs), rest)"
    using cons.prems lt by (intro cons.IH) (simp_all add: kv)
  show ?case
    using step sk ih cons.hyps by (simp add: f kv join_with_Cons)
qed

lemma skip_ws_bracket:
  "starts_value s \<Longrightarrow>
     (case skip_ws s of [] \<Rightarrow> None | d # r' \<Rightarrow> if d = CHR '']'' then A r' else B (d # r')) = B s"
  by (cases s) (simp_all add: starts_value_def skip_ws_def)

lemma skip_ws_brace:
  "starts_value s \<Longrightarrow>
     (case skip_ws s of [] \<Rightarrow> None | d # r' \<Rightarrow> if d = CHR ''}'' then A r' else B (d # r')) = B s"
  by (cases s) (simp_all add: starts_value_def skip_ws_def)

lemma roundtrips_wf: "wf_json v \<Longrightarrow> roundtrips v"
proof (induction v)
  case JNull
  show ?case unfolding roundtrips_def
  proof (intro allI impI)
    fix f rest assume "length (json_dumps JNull) \<le> f"
    then obtain f' where "f = Suc f'" by (cases f) auto
    then show "parse_value f (json_dumps JNull @ rest) = Some (JNull, rest)" by simp
  qed
next
  case (JBool b)
  show ?case unfolding roundtrips_def
  proof (intro allI impI)
    fix f rest assume "length (json_dumps (JBool b)) \<le> f"
    then obtain f' where "f = Suc f'" by (cases f) (auto split: if_splits)
    then show "parse_value f (json_dumps (JBool b) @ rest) = Some (JBool b, rest)" by simp
  qed
next
  case (JInt i)
  show ?case unfolding roundtrips_def
  proof (intro allI impI)
    fix f rest assume "length (json_dumps (JInt i)) \<le> f" and d: "delim rest"
    moreover have "json_dumps (JInt i) \<noteq> []"
      using starts_value_dumps[of "JInt i"] by (auto simp: starts_value_def)
    ultimately obtain f' where "f = Suc f'" by (cases f) auto
    then show "parse_value f (json_dumps (JInt i) @ rest) = Some (JInt i, rest)"
      using parse_value_int[OF d] by simp
  qed
next
  case (JStr s)
  show ?case unfolding roundtrips_def
  proof (intro allI impI)
    fix f rest assume "length (json_dumps (JStr s)) \<le> f"
    then obtain f' where "f = Suc f'" by (cases f) (auto simp: dumps_str_def)
    then show "parse_value f (json_dumps (JStr s) @ rest) = Some (JStr s, rest)"
      using parse_value_str by simp
  qed
next
  case (JArr xs)
  then have rt: "\<forall>x \<in> set xs. roundtrips x"
    by (simp add: list_all_iff)
  show ?case unfolding roundtrips_def
  proof (intro allI impI)
    fix f rest assume le: "length (json_dumps (JArr xs)) \<le> f"
    then obtain f' where f: "f = Suc f'" by (cases f) auto
    show "parse_value f (json_dumps (JArr xs) @ rest) = Some (JArr xs, rest)"
    proof (cases "xs = []")
      case True
      then show ?thesis by (simp add: f skip_ws_delim)
    next
      case False
      let ?body = "join_with '', '' (map json_dumps xs)"
      have lt: "length ?body < f'" using le f by simp
      have "parse_value (Suc f') (CHR ''['' # ?body @ CHR '']'' # rest)
              = parse_elems f' [] (?body @ CHR '']'' # rest)"
        using skip_ws_bracket[OF starts_value_join[OF False]] by simp
      also have "\<dots> = Some (JArr ([] @ xs), rest)"
        using False rt lt by (rule parse_elems_join)
      finally show ?thesis by (simp add: f)
    qed
  qed
next
  case (JObj kvs)
  then have rt: "\<forall>kv \<in> set kvs. roundtrips (snd kv)" and dk: "distinct (map fst kvs)"
    by (auto simp: list_all_iff snds.simps)
  show ?case unfolding roundtrips_def
  proof (intro allI impI)
    fix f rest assume le: "length (json_dumps (JObj kvs)) \<le> f"
    then obtain f' where f: "f = Suc f'" by (cases f) auto
    show "parse_value f (json_dumps (JObj kvs) @ rest) = Some (JObj kvs, rest)"
    proof (cases "kvs = []")
      case True
      then show ?thesis by (simp add: f skip_ws_delim)
    next
      case False
      let ?body = "join_with '', '' (map member_text kvs)"
      have lt: "length ?body < f'" using le f unfolding json_dumps_JObj by simp
      have "parse_value (Suc f') (CHR ''{'' # ?body @ CHR ''}'' # rest)
              = parse_members f' [] (?body @ CHR ''}'' # rest)"
        using skip_ws_brace[OF starts_value_members[OF False]] by simp
      also have "\<dots> = Some (JObj ([] @ kvs), rest)"
        using False rt _ lt by (rule parse_members_join) (simp add: dk)
      finally show ?thesis unfolding f json_dumps_JObj by simp
    qed
  qed
qed

lemma json_loads_dumps: "wf_json v \<Longrightarrow> json_loads (json_dumps v) = Inr v"
proof -
  assume "wf_json v"
  then have "roundtrips v" by (rule roundtrips_wf)
  then have "parse_value (Suc (length (json_dumps v))) (json_dumps v @ []) = Some (v, [])"
    by (intro roundtripsD) (simp_all add: delim_simps)
  moreover have "skip_ws (json_dumps v) = json_dumps v"
    by (simp add: skip_ws_starts starts_value_dumps)
  moreover have "skip_ws [] = []"
    by (simp add: skip_ws_def)
  ultimately show ?thesis
    by (simp add: json_loads_def del: parse_value.simps)
qed

section \<open>Properties of signing and verifying (fedmcp/artifact.py)\<close>

lemma json_dumps_inj: "wf_json a \<Longrightarrow> wf_json b \<Longrightarrow> json_dumps a = json_dumps b \<Longrightarrow> a = b"
  using json_loads_dumps by (metis sum.inject(2))

lemma sign_artifact_ok:
  assumes "key_pair L pem_private pem_public"
  obtains sk pk sg where "from_pem L pem_private = Some sk" "from_pem L pem_public = Some pk"
    "es256_sign L sk nonce \<lparr>alg = ''ES256'', typ_hdr = ''JWT'', kid = kid_arg\<rparr> (json_dumps art) = Some sg"
    "es256_verify L pk \<lparr>alg = ''ES256'', typ_hdr = ''JWT'', kid = kid_arg\<rparr> (json_dumps art) sg"
    "sign_artifact L art pem_private kid_arg nonce =
       Inr (serialize_compact L \<lparr>protected = \<lparr>alg = ''ES256'', typ_hdr = ''JWT'', kid = kid_arg\<rparr>,
                                payload = json_dumps art, signature = sg\<rparr>)"
proof -
  let ?h = "\<lparr>alg = ''ES256'', typ_hdr = ''JWT'', kid = kid_arg\<rparr>"
  from assms obtain sk pk where k: "from_pem L pem_private = Some sk" "from_pem L pem_public = Some pk"
    and m: "matching_keys L sk pk"
    by (auto simp: key_pair_def split: option.splits)
  from m have "case es256_sign L sk nonce ?h (json_dumps art) of None \<Rightarrow> False
                | Some s \<Rightarrow> es256_verify L pk ?h (json_dumps art) s"
    unfolding matching_keys_def by blast
  then obtain sg where s: "es256_sign L sk nonce ?h (json_dumps art) = Some sg"
    and v: "es256_verify L pk ?h (json_dumps art) sg"
    by (auto split: option.splits)
  have "sign_artifact L art pem_private kid_arg nonce =
       Inr (serialize_compact L \<lparr>protected = ?h, payload = json_dumps art, signature = sg\<rparr>)"
    by (simp add: sign_artifact_def k s Let_def)
  with k s v show ?thesis by (rule that)
qed

lemma verify_signed:
  assumes "compact_roundtrip L" "key_pair L pem_private pem_public" "wf_json art"
  shows "sign_then_verify L art pem_private kid_arg nonce pem_public w =
           (case py_getitem art ''workspaceId'' of
              Inl e \<Rightarrow> Inl e
            | Inr v \<Rightarrow> if v \<noteq> JStr w then Inl (ValueError ''workspaceId mismatch'') else Inr art)"
proof -
  obtain sk pk sg where k: "from_pem L pem_public = Some pk"
    and v: "es256_verify L pk \<lparr>alg = ''ES256'', typ_hdr = ''JWT'', kid = kid_arg\<rparr> (json_dumps art) sg"
    and s: "sign_artifact L art pem_private kid_arg nonce =
       Inr (serialize_compact L \<lparr>protected = \<lparr>alg = ''ES256'', typ_hdr = ''JWT'', kid = kid_arg\<rparr>,
                                payload = json_dumps art, signature = sg\<rparr>)"
    using sign_artifact_ok[OF assms(2)] by metis
  have d: "deserialize L (serialize_compact L t) = Some t" for t
    using assms(1) by (simp add: compact_roundtrip_def)
  show ?thesis
    by (simp add: sign_then_verify_def s verify_artifact_def k d v json_loads_dumps[OF assms(3)])
qed

lemma valid_artifact_workspace:
  assumes "valid_artifact a"
  obtains kvs w where "a = JObj kvs" "wf_json a" "py_getitem a ''workspaceId'' = Inr (JStr w)"
proof -
  from assms obtain kvs where a: "a = JObj kvs" by (cases a) auto
  with assms have "has_field is_str kvs ''workspaceId''" and wf: "wf_json a" by auto
  then obtain w where "map_of kvs ''workspaceId'' = Some (JStr w)"
    by (auto simp: has_field_def split: option.splits elim: is_str.elims)
  then have "py_getitem a ''workspaceId'' = Inr (JStr w)" by (simp add: a)
  with a wf show ?thesis by (rule that)
qed

lemma payload_signed_dumps:
  assumes "compact_roundtrip L" "key_pair L pem_private pem_public"
  shows "payload_signed L art pem_private kid_arg nonce = Some (json_dumps art)"
proof -
  obtain sg where s: "sign_artifact L art pem_private kid_arg nonce =
       Inr (serialize_compact L \<lparr>protected = \<lparr>alg = ''ES256'', typ_hdr = ''JWT'', kid = kid_arg\<rparr>,
                                payload = json_dumps art, signature = sg\<rparr>)"
    using sign_artifact_ok[OF assms(2)] by metis
  have d: "deserialize L (serialize_compact L t) = Some t" for t
    using assms(1) by (simp add: compact_roundtrip_def)
  show ?thesis
    by (simp add: payload_signed_def s signed_payload_def d)
qed

text \<open>The stand-in library meets what is assumed of the library.\<close>

lemma demo_compact_roundtrip: "compact_roundtrip demo_jwcrypto"
  unfolding compact_roundtrip_def
proof
  fix t :: jws_token
  let ?v = "JArr [JStr (alg (protected t)), JStr (typ_hdr (protected t)),
                  JStr (kid (protected t)), JStr (payload t), JStr (signature t)]"
  have "json_loads (json_dumps ?v) = Inr ?v"
    by (rule json_loads_dumps) simp
  then show "deserialize demo_jwcrypto (serialize_compact demo_jwcrypto t) = Some t"
    by (simp add: demo_jwcrypto_def del: json_dumps.simps)
qed

lemma demo_key_pair: "key_pair demo_jwcrypto ''sk:A'' ''pk:A''"
  by (simp add: key_pair_def matching_keys_def demo_jwcrypto_def)

lemma demo_deserialize: "deserialize demo_jwcrypto (serialize_compact demo_jwcrypto t) = Some t"
  using demo_compact_roundtrip by (simp add: compact_roundtrip_def)

lemma demo_sign: "sign_artifact demo_jwcrypto a ''sk:A'' k () = Inr (demo_token k a)"
  by (simp add: sign_artifact_def demo_token_def demo_jwcrypto_def Let_def del: json_dumps.simps)

lemma demo_from_pem: "from_pem demo_jwcrypto ''pk:A'' = Some ''pk:A''"
  by (simp add: demo_jwcrypto_def)

lemma demo_verify_iff:
  "es256_verify demo_jwcrypto ''pk:A'' h m s = (s = ''sig:A:'' @ kid h @ '':'' @ m)"
  by (simp add: demo_jwcrypto_def)

lemma verify_demo_token:
  "wf_json a \<Longrightarrow> verify_artifact demo_jwcrypto (demo_token k a) ''pk:A'' w =
     (case py_getitem a ''workspaceId'' of
        Inl e \<Rightarrow> Inl e
      | Inr v \<Rightarrow> if v \<noteq> JStr w then Inl (ValueError ''workspaceId mismatch'') else Inr a)"
  unfolding verify_artifact_def demo_token_def
  by (simp add: demo_from_pem demo_deserialize demo_verify_iff json_loads_dumps
           del: json_dumps.simps)

lemma verify_forged_token:
  "verify_artifact demo_jwcrypto (forged_token a) ''pk:A'' w =
     Inl (InvalidJWSSignature ''Verification failed for all signatures'')"
  unfolding verify_artifact_def forged_token_def
  by (simp add: demo_from_pem demo_deserialize demo_verify_iff del: json_dumps.simps)

lemma loads_garbage: "json_loads ''garbage'' = Inl (JSONDecodeError ''Expecting value'')"
  by (simp add: json_loads_def skip_ws_def is_ws_def parse_number_def is_digit_def)

lemma verify_garbage:
  "verify_artifact demo_jwcrypto ''garbage'' ''pk:A'' w = Inl (InvalidJWSObject ''Invalid JWS Object [Invalid format]'')"
  unfolding verify_artifact_def
  by (simp add: demo_from_pem) (simp add: demo_jwcrypto_def loads_garbage)

lemma valid_example: "valid_artifact example_artifact"
  by (simp add: example_artifact_def example_fields_def artifact_keys_def has_field_def)

lemma valid_reordered: "valid_artifact example_reordered"
  by (auto simp: example_reordered_def artifact_keys_def has_field_def)

lemma wf_example: "wf_json example_artifact"
  by (simp add: example_artifact_def example_fields_def)

lemma example_workspace: "artifact_workspace example_artifact = ''ws-1''"
  by (simp add: artifact_workspace_def example_artifact_def example_fields_def)

lemma example_lookups:
  "map_of example_fields ''id'' = Some (JStr ''a1'')"
  "map_of example_fields ''workspaceId'' = Some (JStr ''ws-1'')"
  by (simp_all add: example_fields_def)

lemma dumps_example:
  \<open>json_dumps example_artifact =
     ''{"id": "a1", "type": "policy", "version": 1, "workspaceId": "ws-1", "createdAt": "2024-01-01T00:00:00Z", "jsonBody": {"rule": "x"}}''\<close>
  by (simp add: example_artifact_def example_fields_def dumps_str_def escape_char_def dumps_int_def
                digits.simps hex_digit_def char_of_eq_iff_nat)

text \<open>
  C1: for every valid Artifact \<open>a\<close> and every key pair whose public key matches the
  private key, verifying the token that signing \<open>a\<close> returns, with \<open>a\<close>'s own
  \<open>workspaceId\<close> as the expected workspace, returns \<open>a\<close> itself, whatever the
  \<open>kid\<close> and the nonce of the signature. The library is assumed to read back the
  compact tokens it writes.
\<close>

theorem sign_verify_roundtrip:
  assumes "compact_roundtrip L" "key_pair L pem_private pem_public" "valid_artifact a"
  shows "sign_then_verify L a pem_private kid_arg nonce pem_public (artifact_workspace a) = Inr a"
proof -
  from assms(3) obtain kvs w where wf: "wf_json a" and g: "py_getitem a ''workspaceId'' = Inr (JStr w)"
    by (rule valid_artifact_workspace)
  show ?thesis
    by (simp add: verify_signed[OF assms(1,2) wf] g artifact_workspace_def)
qed

text \<open>The scenario of the specification: artifact \<open>a1\<close> of workspace \<open>ws-1\<close>.\<close>

theorem sign_verify_roundtrip_witness:
  "sign_then_verify demo_jwcrypto example_artifact ''sk:A'' ''kid-1'' () ''pk:A'' ''ws-1''
     = Inr example_artifact"
  using sign_verify_roundtrip[OF demo_compact_roundtrip demo_key_pair valid_example,
          of "''kid-1''" "()"]
  by (simp add: example_workspace)

text \<open>
  C2: for every valid Artifact signed for workspace \<open>W1\<close>, verifying the token with the
  matching public key and an expected workspace \<open>W2 \<noteq> W1\<close> fails with the workspace
  mismatch error (the \<open>ValueError("workspaceId mismatch")\<close> of the source) and returns no
  artifact, although the same token, with the same signature, verifies for \<open>W1\<close>.
\<close>

theorem verify_wrong_workspace:
  assumes "compact_roundtrip L" "key_pair L pem_private pem_public" "valid_artifact a"
    and "w2 \<noteq> artifact_workspace a"
  shows "sign_then_verify L a pem_private kid_arg nonce pem_public w2
           = Inl (ValueError ''workspaceId mismatch'')
       \<and> sign_then_verify L a pem_private kid_arg nonce pem_public (artifact_workspace a) = Inr a"
proof -
  from assms(3) obtain kvs w where wf: "wf_json a" and g: "py_getitem a ''workspaceId'' = Inr (JStr w)"
    by (rule valid_artifact_workspace)
  show ?thesis
    using assms(4) by (simp add: verify_signed[OF assms(1,2) wf] g artifact_workspace_def)
qed

theorem verify_wrong_workspace_witness:
  "sign_then_verify demo_jwcrypto example_artifact ''sk:A'' ''kid-1'' () ''pk:A'' ''ws-2''
     = Inl (ValueError ''workspaceId mismatch'')
   \<and> sign_then_verify demo_jwcrypto example_artifact ''sk:A'' ''kid-1'' () ''pk:A'' ''ws-1''
     = Inr example_artifact"
proof -
  have n: "''ws-2'' \<noteq> artifact_workspace example_artifact"
    by (simp add: example_workspace)
  show ?thesis
    using verify_wrong_workspace[OF demo_compact_roundtrip demo_key_pair valid_example n,
            of "''kid-1''" "()"]
    by (simp add: example_workspace)
qed

text \<open>
  C3, as the claim states it, fails. The two example artifacts are valid and have the
  same fields, \<open>workspaceId\<close> being first in the second; the payloads signed for them
  differ, and the payload of the first has a blank after every separator.
\<close>

theorem signed_payload_counterexample:
  \<open>valid_artifact example_artifact \<and> valid_artifact example_reordered
   \<and> same_fields example_artifact example_reordered
   \<and> payload_signed demo_jwcrypto example_artifact ''sk:A'' ''kid-1'' ()
       \<noteq> payload_signed demo_jwcrypto example_reordered ''sk:A'' ''kid-1'' ()
   \<and> payload_signed demo_jwcrypto example_artifact ''sk:A'' ''kid-1'' () =
       Some ''{"id": "a1", "type": "policy", "version": 1, "workspaceId": "ws-1", "createdAt": "2024-01-01T00:00:00Z", "jsonBody": {"rule": "x"}}''\<close>
proof -
  have ne: "example_artifact \<noteq> example_reordered"
    by (simp add: example_artifact_def example_fields_def example_reordered_def)
  have wf: "wf_json example_artifact" "wf_json example_reordered"
    by (simp_all add: example_artifact_def example_fields_def example_reordered_def)
  have "json_dumps example_artifact \<noteq> json_dumps example_reordered"
    using json_dumps_inj[OF wf] ne by blast
  moreover have "same_fields example_artifact example_reordered"
    by (auto simp: example_artifact_def example_fields_def example_reordered_def)
  moreover have "payload_signed demo_jwcrypto a ''sk:A'' ''kid-1'' () = Some (json_dumps a)" for a
    using demo_compact_roundtrip demo_key_pair by (rule payload_signed_dumps)
  ultimately show ?thesis
    using valid_example valid_reordered
    by (simp add: dumps_example [symmetric])
qed

text \<open>
  C3 (amended): for every artifact, the payload that \<open>sign_artifact\<close> signs is the
  artifact written by \<open>json.dumps\<close> with its default arguments: a dict is written with
  its items in insertion order, \<open>", "\<close> between items and \<open>": "\<close> after each key.
  Two artifacts yield byte-identical payloads exactly when they are the same value,
  fields in the same order.
\<close>

theorem signed_payload_default_dumps:
  assumes "compact_roundtrip L" "key_pair L pem_private pem_public" "wf_json a" "wf_json b"
  shows "payload_signed L a pem_private kid_arg nonce = Some (json_dumps a)
       \<and> (payload_signed L a pem_private kid_arg nonce = payload_signed L b pem_private kid_arg' nonce')
           = (a = b)
       \<and> json_dumps (JObj kvs) = ''{'' @ join_with '', '' (map member_text kvs) @ ''}''"
proof -
  have pa: "payload_signed L a pem_private kid_arg nonce = Some (json_dumps a)"
    and pb: "payload_signed L b pem_private kid_arg' nonce' = Some (json_dumps b)"
    using assms(1,2) by (rule payload_signed_dumps)+
  have "(json_dumps a = json_dumps b) = (a = b)"
    using json_dumps_inj[OF assms(3,4)] by blast
  then show ?thesis
    unfolding pa pb json_dumps_JObj by simp
qed

theorem signed_payload_default_dumps_witness:
  "payload_signed demo_jwcrypto example_artifact ''sk:A'' ''kid-1'' () = Some (json_dumps example_artifact)
   \<and> (payload_signed demo_jwcrypto example_artifact ''sk:A'' ''kid-1'' ()
        = payload_signed demo_jwcrypto example_artifact ''sk:A'' ''kid-2'' ())
   \<and> json_dumps (JObj [(''rule'', JStr ''x'')])
        = ''{'' @ join_with '', '' (map member_text [(''rule'', JStr ''x'')]) @ ''}''"
  using signed_payload_default_dumps[OF demo_compact_roundtrip demo_key_pair wf_example wf_example,
          of "''kid-1''" "()" "''kid-2''" "()" "[(''rule'', JStr ''x'')]"]
  by blast

text \<open>
  C4, as the claim states it, fails: \<open>verify_artifact\<close> has no keyring. A token whose
  header names the key \<open>unregistered-kid\<close>, a name bound to no key anywhere, is accepted
  under the public key the caller passes.
\<close>

theorem verify_kid_counterexample:
  "sign_artifact demo_jwcrypto example_artifact ''sk:A'' ''unregistered-kid'' ()
     = Inr (demo_token ''unregistered-kid'' example_artifact)
   \<and> map_option (\<lambda>t. kid (protected t))
         (deserialize demo_jwcrypto (demo_token ''unregistered-kid'' example_artifact))
       = Some ''unregistered-kid''
   \<and> verify_artifact demo_jwcrypto (demo_token ''unregistered-kid'' example_artifact)
         ''pk:A'' ''ws-1''
       = Inr example_artifact"
proof -
  have g: "py_getitem example_artifact ''workspaceId'' = Inr (JStr ''ws-1'')"
    by (simp add: example_artifact_def example_lookups)
  have "deserialize demo_jwcrypto (demo_token ''unregistered-kid'' example_artifact)
          = Some \<lparr>protected = \<lparr>alg = ''ES256'', typ_hdr = ''JWT'', kid = ''unregistered-kid''\<rparr>,
                  payload = json_dumps example_artifact,
                  signature = ''sig:A:'' @ ''unregistered-kid'' @ '':'' @ json_dumps example_artifact\<rparr>"
    unfolding demo_token_def by (rule demo_deserialize)
  then show ?thesis
    by (simp add: demo_sign verify_demo_token[OF wf_example] g del: json_dumps.simps)
qed

text \<open>
  C4 (amended): \<open>verify_artifact\<close> checks a structurally well-formed token under the
  public key its caller passes and never looks the header's \<open>kid\<close> up: two well-formed
  tokens with the same payload whose signature checks under the caller's key agree get
  the same result, whatever their headers; and a token whose signature does not verify
  under the caller's key fails with the invalid-signature error.
\<close>

theorem verify_artifact_callers_key:
  assumes "from_pem L pem_public = Some key"
    and "deserialize L c1 = Some t1" "deserialize L c2 = Some t2"
    and "payload t1 = payload t2"
    and "es256_verify L key (protected t1) (payload t1) (signature t1)
           = es256_verify L key (protected t2) (payload t2) (signature t2)"
  shows "verify_artifact L c1 pem_public w = verify_artifact L c2 pem_public w
       \<and> (\<not> es256_verify L key (protected t1) (payload t1) (signature t1) \<longrightarrow>
            verify_artifact L c1 pem_public w
              = Inl (InvalidJWSSignature ''Verification failed for all signatures''))"
  using assms by (simp add: verify_artifact_def)

theorem verify_artifact_callers_key_witness:
  "verify_artifact demo_jwcrypto (demo_token ''kid-1'' example_artifact) ''pk:A'' ''ws-1''
     = verify_artifact demo_jwcrypto (demo_token ''kid-2'' example_artifact) ''pk:A'' ''ws-1''
   \<and> verify_artifact demo_jwcrypto (forged_token example_artifact) ''pk:A'' ''ws-1''
     = Inl (InvalidJWSSignature ''Verification failed for all signatures'')"
proof -
  let ?t = "\<lambda>k. \<lparr>protected = \<lparr>alg = ''ES256'', typ_hdr = ''JWT'', kid = k\<rparr>,
                   payload = json_dumps example_artifact,
                   signature = ''sig:A:'' @ k @ '':'' @ json_dumps example_artifact\<rparr>"
  let ?f = "\<lparr>protected = \<lparr>alg = ''ES256'', typ_hdr = ''JWT'', kid = ''kid-1''\<rparr>,
             payload = json_dumps example_artifact, signature = ''forged''\<rparr>"
  have d: "deserialize demo_jwcrypto (demo_token k example_artifact) = Some (?t k)" for k
    unfolding demo_token_def by (rule demo_deserialize)
  have f: "deserialize demo_jwcrypto (forged_token example_artifact) = Some ?f"
    unfolding forged_token_def by (rule demo_deserialize)
  have p: "payload (?t ''kid-1'') = payload (?t ''kid-2'')"
    by simp
  have e: "es256_verify demo_jwcrypto ''pk:A'' (protected (?t ''kid-1'')) (payload (?t ''kid-1''))
              (signature (?t ''kid-1''))
           = es256_verify demo_jwcrypto ''pk:A'' (protected (?t ''kid-2'')) (payload (?t ''kid-2''))
              (signature (?t ''kid-2''))"
    by (simp add: demo_verify_iff del: json_dumps.simps)
  have n: "\<not> es256_verify demo_jwcrypto ''pk:A'' (protected ?f) (payload ?f) (signature ?f)"
    by (simp add: demo_verify_iff del: json_dumps.simps)
  have "verify_artifact demo_jwcrypto (demo_token ''kid-1'' example_artifact) ''pk:A'' ''ws-1''
     = verify_artifact demo_jwcrypto (demo_token ''kid-2'' example_artifact) ''pk:A'' ''ws-1''"
    using verify_artifact_callers_key[OF demo_from_pem d d p e, of "''ws-1''"] by blast
  moreover have "verify_artifact demo_jwcrypto (forged_token example_artifact) ''pk:A'' ''ws-1''
     = Inl (InvalidJWSSignature ''Verification failed for all signatures'')"
    using verify_artifact_callers_key[OF demo_from_pem f f refl refl, of "''ws-1''"] n by blast
  ultimately show ?thesis by blast
qed

section \<open>Properties of the audit actions (fedmcp/audit.py)\<close>

lemma emit_event_reads_back:
  "json_loads (last (emit_event out aid act actor_name event_id now))
     = Inr (audit_evt aid act actor_name event_id now)"
proof -
  have "wf_json (audit_evt aid act actor_name event_id now)"
    by (simp add: audit_evt_def)
  then have "json_loads (json_dumps (audit_evt aid act actor_name event_id now))
               = Inr (audit_evt aid act actor_name event_id now)"
    by (rule json_loads_dumps)
  then show ?thesis
    by (simp add: emit_event_def)
qed

lemma audit_evt_action:
  "py_getitem (audit_evt aid act actor_name event_id now) ''action'' = Inr (JStr act)"
  by (simp add: audit_evt_def)

text \<open>
  C5, as the claim states it, fails: \<open>emit_event\<close> checks its action against no
  enumeration. Called with the action \<open>bogus\<close>, which is none of the six, it prints an
  event whose \<open>action\<close> is \<open>bogus\<close>.
\<close>

theorem emit_event_counterexample:
  \<open>''bogus'' \<notin> set spec_actions
   \<and> emit_event [] ''a1'' ''bogus'' ''user:alice'' ''11111111-2222-4333-8444-555555555555''
        ''2024-01-01T00:00:00+00:00''
      = [''{"eventId": "11111111-2222-4333-8444-555555555555", "artifactId": "a1", "action": "bogus", "actor": "user:alice", "timestamp": "2024-01-01T00:00:00+00:00"}'']
   \<and> py_getitem (audit_evt ''a1'' ''bogus'' ''user:alice'' ''11111111-2222-4333-8444-555555555555''
                    ''2024-01-01T00:00:00+00:00'') ''action''
      = Inr (JStr ''bogus'')\<close>
  by (simp add: spec_actions_def emit_event_def audit_evt_def dumps_str_def escape_char_def)

text \<open>
  C5 (amended): the event \<open>emit_event\<close> emits carries exactly the action string it
  is passed, whatever that string is: the line printed reads back as the event, whose
  \<open>action\<close> is the one passed. So an event can be emitted for each of the six actions
  create, read, update, delete, verify, deploy, in particular for read and verify, and
  its action is then one of the six. The annotation of the parameter names four of the
  six and is not enforced.
\<close>

theorem emit_event_any_action:
  "py_getitem (audit_evt aid act actor_name event_id now) ''action'' = Inr (JStr act)
   \<and> emit_event out aid act actor_name event_id now
        = out @ [json_dumps (audit_evt aid act actor_name event_id now)]
   \<and> json_loads (last (emit_event out aid act actor_name event_id now))
        = Inr (audit_evt aid act actor_name event_id now)
   \<and> list_all (\<lambda>a. a \<in> set spec_actions
                   \<and> json_loads (last (emit_event out aid a actor_name event_id now))
                       = Inr (audit_evt aid a actor_name event_id now)
                   \<and> py_getitem (audit_evt aid a actor_name event_id now) ''action''
                       = Inr (JStr a))
        spec_actions
   \<and> set AuditAction \<subseteq> set spec_actions"
proof -
  have "list_all (\<lambda>a. a \<in> set spec_actions
                   \<and> json_loads (last (emit_event out aid a actor_name event_id now))
                       = Inr (audit_evt aid a actor_name event_id now)
                   \<and> py_getitem (audit_evt aid a actor_name event_id now) ''action''
                       = Inr (JStr a))
          spec_actions"
    by (simp add: list_all_iff emit_event_reads_back audit_evt_action)
  moreover have "set AuditAction \<subseteq> set spec_actions"
    by (simp add: AuditAction_def spec_actions_def)
  ultimately show ?thesis
    by (simp add: emit_event_reads_back audit_evt_action) (simp add: emit_event_def)
qed

section \<open>Properties of the audit query\<close>

lemma py_slice_from_neg: "0 < limit \<Longrightarrow> py_slice_from (- limit) xs = last_n (nat limit) xs"
  by (auto simp: py_slice_from_def last_n_def Let_def max_def intro: arg_cong2[where f=drop])

lemma filter_twice: "filter P (filter Q xs) = filter (\<lambda>x. Q x \<and> P x) xs"
  by (induction xs) auto

lemma get_audit_events_eq:
  "0 < limit \<Longrightarrow> get_audit_events py_eq log aid wid limit
     = filter (matches_filters py_eq aid wid) (last_n (nat limit) log)"
  by (auto simp: get_audit_events_def py_slice_from_neg matches_filters_def Let_def filter_twice
      split: option.splits intro!: filter_cong)

lemma length_last_n: "length (last_n n xs) \<le> n"
  by (simp add: last_n_def)

lemma subseq_last_n: "subseq (last_n n xs) xs"
  by (simp add: last_n_def suffix_imp_subseq suffix_drop)

text \<open>
  C6, as the claim states it, fails. With \<open>entry_create\<close> logged before \<open>entry_read\<close>:
  the query returns them oldest first, where the specified query returns the most recent
  first; with limit 0 it returns both entries; and with limit 1 and a filter on artifact
  \<open>a1\<close> it returns nothing, the limit having cut the log before the filter ran, where
  the specified query returns the matching entry.
\<close>

theorem get_audit_events_counterexample:
  "get_audit_events (=) [entry_create, entry_read] None None 2 = [entry_create, entry_read]
   \<and> spec_query (=) [entry_create, entry_read] None None 2 = [entry_read, entry_create]
   \<and> length (get_audit_events (=) [entry_create, entry_read] None None 0) = 2
   \<and> get_audit_events (=) [entry_create, entry_read] (Some ''a1'') None 1 = []
   \<and> spec_query (=) [entry_create, entry_read] (Some ''a1'') None 1 = [entry_create]"
  by (simp add: get_audit_events_def spec_query_def py_slice_from_def matches_filters_def
       artifactId_matches_def workspaceId_matches_def entry_create_def entry_read_def)

text \<open>
  C6 (amended): for every audit log and every positive limit, the query returns the
  entries among the last \<open>limit\<close> logged that match every given (non-empty) filter, in
  the order they were logged (oldest first); so it returns at most \<open>limit\<close> entries,
  each matching all given filters, the limit being applied before the filters.
\<close>

theorem get_audit_events_last_n:
  assumes "0 < limit"
  shows "get_audit_events py_eq log aid wid limit
           = filter (matches_filters py_eq aid wid) (last_n (nat limit) log)
       \<and> int (length (get_audit_events py_eq log aid wid limit)) \<le> limit
       \<and> subseq (get_audit_events py_eq log aid wid limit) log
       \<and> (\<forall>e \<in> set (get_audit_events py_eq log aid wid limit). matches_filters py_eq aid wid e)"
proof -
  let ?r = "get_audit_events py_eq log aid wid limit"
  have eq: "?r = filter (matches_filters py_eq aid wid) (last_n (nat limit) log)"
    using assms by (rule get_audit_events_eq)
  have "length ?r \<le> length (last_n (nat limit) log)"
    unfolding eq by (rule length_filter_le)
  also have "\<dots> \<le> nat limit"
    by (rule length_last_n)
  finally have len: "int (length ?r) \<le> limit"
    using assms by simp
  have "subseq ?r (last_n (nat limit) log)"
    unfolding eq by simp
  then have sub: "subseq ?r log"
    using subseq_last_n subseq_order.order_trans by blast
  have "\<forall>e \<in> set ?r. matches_filters py_eq aid wid e"
    unfolding eq by simp
  with eq len sub show ?thesis by blast
qed

theorem get_audit_events_last_n_witness:
  "(0::int) < 1
   \<and> get_audit_events (=) [entry_create, entry_read] (Some ''a2'') None 1 = [entry_read]
   \<and> int (length (get_audit_events (=) [entry_create, entry_read] (Some ''a2'') None 1)) \<le> 1
   \<and> subseq (get_audit_events (=) [entry_create, entry_read] (Some ''a2'') None 1)
        [entry_create, entry_read]
   \<and> matches_filters (=) (Some ''a2'') None entry_read"
proof -
  have h: "(0::int) < 1" by simp
  have v: "filter (matches_filters (=) (Some ''a2'') None) (last_n (nat 1) [entry_create, entry_read])
             = [entry_read]"
    by (simp add: last_n_def matches_filters_def artifactId_matches_def entry_read_def)
  show ?thesis
    using get_audit_events_last_n [OF h, of "(=)" "[entry_create, entry_read]" "Some ''a2''" None]
    unfolding v by simp
qed

section \<open>Properties of the request handlers (fedmcp\_server.py)\<close>

lemma log_audit_event_appends:
  assumes "s \<noteq> []" "log_audit_event C logs act user (JStr s) w None = Inr logs'"
  shows "\<exists>u wid. UUID_parse C s = Some u \<and>
           logs' = logs @ [\<lparr>action = act, actor = user, artifactId = Some u, workspaceId = wid,
                            metadata = []\<rparr>]"
  using assms
  by (auto simp: log_audit_event_def split: sum.splits option.splits if_splits) metis+

lemma create_artifact_body_success:
  assumes "create_artifact_body C st req do_sign user = (Inr r, st')"
  shows "\<exists>art. Artifact_new C req = Inr art \<and> artifact_id r = artifact_id_str C art \<and>
           log_audit_event C (audit_logs st) CREATE user (JStr (artifact_id_str C art))
              (JStr (artifact_workspace_str C art)) None = Inr (audit_logs st')"
  using assms
  by (auto simp: create_artifact_body_def split: sum.splits option.splits if_splits prod.splits)

lemma create_artifact_success:
  assumes "create_artifact C st req do_sign user = (Inr r, st')"
  shows "create_artifact_body C st req do_sign user = (Inr r, st')"
  using assms
  by (auto simp: create_artifact_def split: sum.splits prod.splits)

lemma get_artifact_handler_success:
  assumes "get_artifact_handler C st aid user = (Inr data, st')"
  shows "\<exists>w. log_audit_event C (audit_logs st) READ user (JStr aid) w None = Inr (audit_logs st')"
  using assms
  by (auto simp: get_artifact_handler_def split: sum.splits option.splits if_splits)

lemma verify_artifact_handler_success:
  assumes "verify_artifact_handler C st tok user = (resp, st')" "valid resp"
  shows "\<exists>art. verifier_verify C tok = Inr art \<and> artifact resp = Some (artifact_dump C art) \<and>
           log_audit_event C (audit_logs st) VERIFY user (JStr (artifact_id_str C art))
              (JStr (artifact_workspace_str C art)) None = Inr (audit_logs st')"
  using assms
  by (auto simp: verify_artifact_handler_def split: sum.splits)

text \<open>Runs of the handlers on the stand-in core.\<close>

lemma demo_ids: "\<forall>a. artifact_id_str demo_core a \<noteq> []"
  by (auto simp: demo_core_def split: sum.splits json.splits)

lemma valid_example_fields: "valid_artifact (JObj example_fields)"
  using valid_example by (simp add: example_artifact_def)

lemma demo_log:
  "log_audit_event demo_core logs act user (JStr ''a1'') (JStr ''ws-1'') None
     = Inr (logs @ [event_of act user])"
  by (simp add: log_audit_event_def demo_core_def event_of_def)

lemma demo_create:
  "create_artifact demo_core server0 example_fields True ''user:alice'' =
     (Inr \<lparr>jws = demo_token ''kid-1'' (JObj example_fields), artifact_id = ''a1'',
           workspace_id = ''ws-1''\<rparr>,
      \<lparr>storage = LocalStorage ''/tmp/fedmcp''
         (empty_filesystem\<lparr>files := (files empty_filesystem)
            (file_path ''/tmp/fedmcp'' ''a1'' \<mapsto>
               json_dumps (JObj [(''artifact'', JObj example_fields),
                                 (''jws'', JStr (demo_token ''kid-1'' (JObj example_fields)))]))\<rparr>),
       audit_logs = [event_of CREATE ''user:alice'']\<rparr>)"
proof -
  have c: "Artifact_new demo_core example_fields = Inr (JObj example_fields)"
    "artifact_validate demo_core a = None"
    "artifact_dump demo_core a = a"
    "signer_sign demo_core a = Inr (demo_token ''kid-1'' a)" for a
    by (simp_all add: demo_core_def valid_example_fields demo_sign del: valid_artifact.simps)
  have i: "artifact_id_str demo_core (JObj example_fields) = ''a1''"
    "artifact_workspace_str demo_core (JObj example_fields) = ''ws-1''"
    by (simp_all add: demo_core_def artifact_workspace_def example_lookups)
  have s: "can_write empty_filesystem p" for p
    by (simp add: empty_filesystem_def)
  show ?thesis
    by (simp add: create_artifact_def create_artifact_body_def c i server0_def s demo_log Let_def
             del: json_dumps.simps)
qed

lemma demo_get:
  "get_artifact_handler demo_core server1 ''a1'' ''user:bob'' =
     (Inr (JObj [(''artifact'', JObj example_fields),
                 (''jws'', JStr (demo_token ''kid-1'' (JObj example_fields)))]),
      server1\<lparr>audit_logs := [event_of CREATE ''user:alice'', event_of READ ''user:bob'']\<rparr>)"
proof -
  let ?doc = "JObj [(''artifact'', JObj example_fields),
                    (''jws'', JStr (demo_token ''kid-1'' (JObj example_fields)))]"
  have "wf_json ?doc"
    by (simp add: example_fields_def)
  then have l: "json_loads (json_dumps ?doc) = Inr ?doc"
    by (rule json_loads_dumps)
  show ?thesis
    by (simp add: get_artifact_handler_def server1_def demo_create l example_lookups demo_log
             del: json_dumps.simps)
qed

lemma demo_verify:
  "verify_artifact_handler demo_core server0 (demo_token ''kid-1'' example_artifact) ''user:carol'' =
     (\<lparr>valid = True, artifact = Some example_artifact, error = None\<rparr>,
      server0\<lparr>audit_logs := [event_of VERIFY ''user:carol'']\<rparr>)"
proof -
  have v: "verifier_verify demo_core (demo_token ''kid-1'' example_artifact) = Inr example_artifact"
    by (simp add: demo_core_def verify_demo_token[OF wf_example])
       (simp add: example_artifact_def example_lookups)
  have i: "artifact_id_str demo_core example_artifact = ''a1''"
    "artifact_workspace_str demo_core example_artifact = ''ws-1''"
    "artifact_dump demo_core example_artifact = example_artifact"
    by (simp_all add: demo_core_def artifact_workspace_def example_artifact_def example_lookups)
  show ?thesis
    by (simp add: verify_artifact_handler_def v i demo_log server0_def)
qed

lemma demo_verifier_other_workspace:
  "verifier_verify demo_core (demo_token ''kid-1'' example_other_workspace)
     = Inl (ValueError ''workspaceId mismatch'')"
proof -
  have wf: "wf_json example_other_workspace"
    by (simp add: example_other_workspace_def)
  have g: "py_getitem example_other_workspace ''workspaceId'' = Inr (JStr ''ws-2'')"
    by (simp add: example_other_workspace_def)
  show ?thesis
    by (simp add: demo_core_def verify_demo_token[OF wf] g)
qed

lemma demo_verifier_forged:
  "verifier_verify demo_core (forged_token example_artifact)
     = Inl (InvalidJWSSignature ''Verification failed for all signatures'')"
  by (simp add: demo_core_def verify_forged_token)

lemma demo_verifier_garbage:
  "verifier_verify demo_core ''garbage'' = Inl (InvalidJWSObject ''Invalid JWS Object [Invalid format]'')"
  by (simp add: demo_core_def verify_garbage)

text \<open>
  C7: every successful CreateArtifact, GetArtifact and VerifyToken call appends exactly
  one event to the audit log, whose action is \<open>CREATE\<close>, \<open>READ\<close> or \<open>VERIFY\<close>
  respectively and whose \<open>artifactId\<close> is the UUID of the id of the artifact the call
  operated on: the \<open>artifact_id\<close> of the response, the id in the path, the id of the
  verified artifact. The text of an artifact's id, and the id in the path, is not empty.
\<close>

theorem audit_completeness:
  assumes "\<forall>a. artifact_id_str C a \<noteq> []"
  shows "(create_artifact C st req do_sign user = (Inr r, st') \<longrightarrow>
            (\<exists>u wid. UUID_parse C (artifact_id r) = Some u \<and>
               audit_logs st' = audit_logs st @
                 [\<lparr>action = CREATE, actor = user, artifactId = Some u, workspaceId = wid,
                   metadata = []\<rparr>]))
       \<and> (aid \<noteq> [] \<longrightarrow> get_artifact_handler C st aid user = (Inr data, st1) \<longrightarrow>
            (\<exists>u wid. UUID_parse C aid = Some u \<and>
               audit_logs st1 = audit_logs st @
                 [\<lparr>action = READ, actor = user, artifactId = Some u, workspaceId = wid,
                   metadata = []\<rparr>]))
       \<and> (verify_artifact_handler C st tok user = (resp, st2) \<longrightarrow> valid resp \<longrightarrow>
            (\<exists>art u wid. verifier_verify C tok = Inr art \<and>
               UUID_parse C (artifact_id_str C art) = Some u \<and>
               audit_logs st2 = audit_logs st @
                 [\<lparr>action = VERIFY, actor = user, artifactId = Some u, workspaceId = wid,
                   metadata = []\<rparr>]))"
proof (intro conjI impI)
  assume "create_artifact C st req do_sign user = (Inr r, st')"
  then obtain art where "artifact_id r = artifact_id_str C art"
    and "log_audit_event C (audit_logs st) CREATE user (JStr (artifact_id_str C art))
              (JStr (artifact_workspace_str C art)) None = Inr (audit_logs st')"
    using create_artifact_body_success[OF create_artifact_success] by blast
  then show "\<exists>u wid. UUID_parse C (artifact_id r) = Some u \<and>
               audit_logs st' = audit_logs st @
                 [\<lparr>action = CREATE, actor = user, artifactId = Some u, workspaceId = wid,
                   metadata = []\<rparr>]"
    using log_audit_event_appends assms by metis
next
  assume "aid \<noteq> []" "get_artifact_handler C st aid user = (Inr data, st1)"
  then show "\<exists>u wid. UUID_parse C aid = Some u \<and>
               audit_logs st1 = audit_logs st @
                 [\<lparr>action = READ, actor = user, artifactId = Some u, workspaceId = wid,
                   metadata = []\<rparr>]"
    using get_artifact_handler_success log_audit_event_appends by metis
next
  assume "verify_artifact_handler C st tok user = (resp, st2)" "valid resp"
  then obtain art where v: "verifier_verify C tok = Inr art"
    and "log_audit_event C (audit_logs st) VERIFY user (JStr (artifact_id_str C art))
              (JStr (artifact_workspace_str C art)) None = Inr (audit_logs st2)"
    using verify_artifact_handler_success by blast
  then obtain u wid where "UUID_parse C (artifact_id_str C art) = Some u"
    "audit_logs st2 = audit_logs st @
                 [\<lparr>action = VERIFY, actor = user, artifactId = Some u, workspaceId = wid,
                   metadata = []\<rparr>]"
    using log_audit_event_appends assms by metis
  with v show "\<exists>art u wid. verifier_verify C tok = Inr art \<and>
               UUID_parse C (artifact_id_str C art) = Some u \<and>
               audit_logs st2 = audit_logs st @
                 [\<lparr>action = VERIFY, actor = user, artifactId = Some u, workspaceId = wid,
                   metadata = []\<rparr>]"
    by blast
qed

text \<open>
  Creating artifact \<open>a1\<close>, reading it back and verifying its token: each call succeeds
  and appends its one event.
\<close>

theorem audit_completeness_witness:
  "(\<forall>a. artifact_id_str demo_core a \<noteq> [])
   \<and> (case create_artifact demo_core server0 example_fields True ''user:alice'' of
        (Inr r, st') \<Rightarrow> artifact_id r = ''a1'' \<and> audit_logs st' = [event_of CREATE ''user:alice'']
      | (Inl e, st') \<Rightarrow> False)
   \<and> (case get_artifact_handler demo_core server1 ''a1'' ''user:bob'' of
        (Inr data, st') \<Rightarrow> audit_logs st' = audit_logs server1 @ [event_of READ ''user:bob'']
      | (Inl e, st') \<Rightarrow> False)
   \<and> (case verify_artifact_handler demo_core server0 (demo_token ''kid-1'' example_artifact)
             ''user:carol'' of
        (resp, st') \<Rightarrow> valid resp \<and> audit_logs st' = [event_of VERIFY ''user:carol''])"
proof -
  note t = audit_completeness[OF demo_ids, of server0 example_fields True "''user:alice''" _ _ "''a1''"]
  have s1: "audit_logs server1 = [event_of CREATE ''user:alice'']"
    by (simp add: server1_def demo_create)
  show ?thesis
    using demo_ids t
    by (simp add: demo_create demo_get demo_verify s1)
qed

text \<open>
  C9, as the claim states it, fails. Three tokens are rejected for three causes: one
  signed for another workspace, one with a forged signature, one that is no token. Each
  response carries the text of its own exception, so the three responses differ and tell
  which check failed.
\<close>

theorem verify_response_counterexample:
  "fst (verify_artifact_handler demo_core server0 (demo_token ''kid-1'' example_other_workspace) ''user:eve'')
     = \<lparr>valid = False, artifact = None, error = Some ''workspaceId mismatch''\<rparr>
   \<and> fst (verify_artifact_handler demo_core server0 (forged_token example_artifact) ''user:eve'')
     = \<lparr>valid = False, artifact = None, error = Some ''Verification failed for all signatures''\<rparr>
   \<and> fst (verify_artifact_handler demo_core server0 ''garbage'' ''user:eve'')
     = \<lparr>valid = False, artifact = None, error = Some ''Invalid JWS Object [Invalid format]''\<rparr>"
  by (simp add: verify_artifact_handler_def demo_verifier_other_workspace demo_verifier_forged
        demo_verifier_garbage)

text \<open>
  C9 (amended): for every verification failure the VerifyToken response has
  \<open>valid=False\<close>, no artifact, and as \<open>error\<close> the text of the exception raised; the
  responses to two failures are the same exactly when the texts of their exceptions are.
\<close>

theorem verify_response_error_text:
  assumes "verifier_verify C t1 = Inl e1" "verifier_verify C t2 = Inl e2"
  shows "fst (verify_artifact_handler C st t1 user)
           = \<lparr>valid = False, artifact = None, error = Some (str_exn e1)\<rparr>
       \<and> (fst (verify_artifact_handler C st t1 user) = fst (verify_artifact_handler C st t2 user))
           = (str_exn e1 = str_exn e2)"
  using assms by (simp add: verify_artifact_handler_def)

theorem verify_response_error_text_witness:
  "fst (verify_artifact_handler demo_core server0 (forged_token example_artifact) ''user:eve'')
     = \<lparr>valid = False, artifact = None, error = Some ''Verification failed for all signatures''\<rparr>
   \<and> fst (verify_artifact_handler demo_core server0 (forged_token example_artifact) ''user:eve'')
       \<noteq> fst (verify_artifact_handler demo_core server0 ''garbage'' ''user:eve'')"
proof -
  from verify_response_error_text[OF demo_verifier_forged demo_verifier_garbage,
         of server0 "''user:eve''"]
  have a: "fst (verify_artifact_handler demo_core server0 (forged_token example_artifact) ''user:eve'')
             = \<lparr>valid = False, artifact = None,
                 error = Some (str_exn (InvalidJWSSignature ''Verification failed for all signatures''))\<rparr>"
    and b: "(fst (verify_artifact_handler demo_core server0 (forged_token example_artifact) ''user:eve'')
              = fst (verify_artifact_handler demo_core server0 ''garbage'' ''user:eve''))
            = (str_exn (InvalidJWSSignature ''Verification failed for all signatures'')
                = str_exn (InvalidJWSObject ''Invalid JWS Object [Invalid format]''))"
    by blast+
  from b have "fst (verify_artifact_handler demo_core server0 (forged_token example_artifact) ''user:eve'')
              \<noteq> fst (verify_artifact_handler demo_core server0 ''garbage'' ''user:eve'')"
    by simp
  with a show ?thesis by simp
qed

text \<open>
  C10: whenever verification of a token fails, the VerifyToken handler returns a normal
  response with \<open>valid=False\<close> and the error text, and leaves the server state, the
  audit log included, as it was. Whenever the response is not valid the state is unchanged
  and an error text is present; and the audit log changes only when verification has
  succeeded and the response is valid.
\<close>

theorem verify_failure_no_audit:
  "(verifier_verify C tok = Inl e \<longrightarrow>
      verify_artifact_handler C st tok user
        = (\<lparr>valid = False, artifact = None, error = Some (str_exn e)\<rparr>, st))
   \<and> (\<not> valid (fst (verify_artifact_handler C st tok user)) \<longrightarrow>
        snd (verify_artifact_handler C st tok user) = st
        \<and> error (fst (verify_artifact_handler C st tok user)) \<noteq> None)
   \<and> (audit_logs (snd (verify_artifact_handler C st tok user)) \<noteq> audit_logs st \<longrightarrow>
        (\<exists>art. verifier_verify C tok = Inr art)
        \<and> valid (fst (verify_artifact_handler C st tok user)))"
  by (auto simp: verify_artifact_handler_def split: sum.splits)

theorem verify_failure_no_audit_witness:
  "verifier_verify demo_core ''garbage'' = Inl (InvalidJWSObject ''Invalid JWS Object [Invalid format]'')
   \<and> verify_artifact_handler demo_core server0 ''garbage'' ''user:eve''
       = (\<lparr>valid = False, artifact = None, error = Some ''Invalid JWS Object [Invalid format]''\<rparr>, server0)"
  using verify_failure_no_audit[of demo_core "''garbage''" "InvalidJWSObject ''Invalid JWS Object [Invalid format]''"
          server0 "''user:eve''"] demo_verifier_garbage
  by simp

section \<open>Properties of the storage backends (fedmcp\_server.py)\<close>

lemma store_then_get_one:
  assumes "wf_json doc" "store_artifact sto aid doc = Inr sto'"
  shows "get_artifact sto' aid = Inr (Some doc)"
proof (cases sto)
  case (LocalStorage root fs)
  with assms show ?thesis
    by (auto simp: Let_def json_loads_dumps split: if_splits)
next
  case (S3Storage b s3)
  with assms show ?thesis
    by (auto simp: json_loads_dumps split: if_splits)
qed

text \<open>
  C8: for every artifact id and document and for both backends, the file system and the
  object store, when storing the document under the id succeeds, getting the id returns
  the document stored; and a later store under the same id replaces it.
\<close>

theorem store_then_get:
  assumes "wf_json doc" "store_artifact sto aid doc = Inr sto'"
  shows "get_artifact sto' aid = Inr (Some doc)
       \<and> (\<forall>doc2 sto2. wf_json doc2 \<longrightarrow> store_artifact sto' aid doc2 = Inr sto2 \<longrightarrow>
             get_artifact sto2 aid = Inr (Some doc2))"
  using assms store_then_get_one by blast

theorem store_then_get_witness:
  "wf_json example_doc \<and> wf_json example_doc2
   \<and> (case store_artifact (LocalStorage ''/tmp/fedmcp'' empty_filesystem) ''a1'' example_doc of
         Inl e \<Rightarrow> False
       | Inr sto \<Rightarrow> get_artifact sto ''a1'' = Inr (Some example_doc)
           \<and> (case store_artifact sto ''a1'' example_doc2 of
                 Inl e \<Rightarrow> False
               | Inr sto2 \<Rightarrow> get_artifact sto2 ''a1'' = Inr (Some example_doc2)))
   \<and> (case store_artifact (S3Storage ''fedmcp-artifacts'' empty_bucket) ''a1'' example_doc of
         Inl e \<Rightarrow> False
       | Inr sto \<Rightarrow> get_artifact sto ''a1'' = Inr (Some example_doc)
           \<and> (case store_artifact sto ''a1'' example_doc2 of
                 Inl e \<Rightarrow> False
               | Inr sto2 \<Rightarrow> get_artifact sto2 ''a1'' = Inr (Some example_doc2)))"
proof -
  have wf: "wf_json example_doc" "wf_json example_doc2"
    by (simp_all add: example_doc_def example_doc2_def example_artifact_def example_fields_def
          example_other_workspace_def)
  have "\<exists>sto. store_artifact (LocalStorage ''/tmp/fedmcp'' empty_filesystem) ''a1'' example_doc = Inr sto"
    by (simp add: empty_filesystem_def Let_def)
  then obtain l1 where l1: "store_artifact (LocalStorage ''/tmp/fedmcp'' empty_filesystem) ''a1'' example_doc = Inr l1"
    by blast
  have "\<exists>sto. store_artifact l1 ''a1'' example_doc2 = Inr sto"
    using l1 by (auto simp: empty_filesystem_def Let_def)
  then obtain l2 where l2: "store_artifact l1 ''a1'' example_doc2 = Inr l2"
    by blast
  have "\<exists>sto. store_artifact (S3Storage ''fedmcp-artifacts'' empty_bucket) ''a1'' example_doc = Inr sto"
    by (simp add: empty_bucket_def)
  then obtain b1 where b1: "store_artifact (S3Storage ''fedmcp-artifacts'' empty_bucket) ''a1'' example_doc = Inr b1"
    by blast
  have "\<exists>sto. store_artifact b1 ''a1'' example_doc2 = Inr sto"
    using b1 by (auto simp: empty_bucket_def)
  then obtain b2 where b2: "store_artifact b1 ''a1'' example_doc2 = Inr b2"
    by blast
  show ?thesis
    using store_then_get[OF wf(1) l1] store_then_get[OF wf(1) b1] wf l1 l2 b1 b2
    by simp
qed

end
